theory Spec2Isabelle
  imports Complex_Main
begin

section \<open>Floating-point values\<close>

text \<open>
  A NumPy \<open>float64\<close> (and a Python \<open>float\<close>) is one of: a finite number, plus or
  minus infinity, or NaN.  A finite value carries the real number it denotes.  The
  arithmetic below follows IEEE 754 on the special values and lets a finite result
  that exceeds the largest finite double become an infinity: NumPy returns the
  infinity or the NaN in every error state the code sets (\<open>np.errstate\<close> only
  silences the warning).  Two things are left out of the model: the rounding of the
  mantissa of a finite result, and the sign of zero.
\<close>

datatype f64 = Fin real | PInf | NInf | NaN

definition MAXF :: real where
  "MAXF = (2 ^ 53 - 1) * 2 ^ 971"

definition rnd :: "real \<Rightarrow> f64" where
  "rnd x = (if x > MAXF then PInf else if x < - MAXF then NInf else Fin x)"

fun is_nan :: "f64 \<Rightarrow> bool" where
  "is_nan NaN = True"
| "is_nan _ = False"

fun is_finite :: "f64 \<Rightarrow> bool" where
  "is_finite (Fin _) = True"
| "is_finite _ = False"

subsection \<open>Comparisons: every comparison with NaN is false, except \<open>!=\<close>\<close>

fun f_lt :: "f64 \<Rightarrow> f64 \<Rightarrow> bool" where
  "f_lt NaN _ = False"
| "f_lt _ NaN = False"
| "f_lt (Fin x) (Fin y) = (x < y)"
| "f_lt NInf NInf = False"
| "f_lt NInf _ = True"
| "f_lt _ NInf = False"
| "f_lt PInf _ = False"
| "f_lt _ PInf = True"

fun f_eq :: "f64 \<Rightarrow> f64 \<Rightarrow> bool" where
  "f_eq NaN _ = False"
| "f_eq _ NaN = False"
| "f_eq a b = (a = b)"

definition f_le :: "f64 \<Rightarrow> f64 \<Rightarrow> bool" where
  "f_le a b = (f_lt a b \<or> f_eq a b)"

definition f_gt :: "f64 \<Rightarrow> f64 \<Rightarrow> bool" where
  "f_gt a b = f_lt b a"

definition f_ne :: "f64 \<Rightarrow> f64 \<Rightarrow> bool" where
  "f_ne a b = (\<not> f_eq a b)"

subsection \<open>Arithmetic\<close>

fun f_neg :: "f64 \<Rightarrow> f64" where
  "f_neg (Fin x) = Fin (- x)"
| "f_neg PInf = NInf"
| "f_neg NInf = PInf"
| "f_neg NaN = NaN"

fun f_add :: "f64 \<Rightarrow> f64 \<Rightarrow> f64" where
  "f_add NaN _ = NaN"
| "f_add _ NaN = NaN"
| "f_add (Fin x) (Fin y) = rnd (x + y)"
| "f_add PInf NInf = NaN"
| "f_add NInf PInf = NaN"
| "f_add PInf _ = PInf"
| "f_add NInf _ = NInf"
| "f_add _ PInf = PInf"
| "f_add _ NInf = NInf"

text \<open>The sign of an infinity times, or divided by, a finite non-zero number.\<close>

definition signed_inf :: "bool \<Rightarrow> f64" where
  "signed_inf negative = (if negative then NInf else PInf)"

fun f_mul :: "f64 \<Rightarrow> f64 \<Rightarrow> f64" where
  "f_mul NaN _ = NaN"
| "f_mul _ NaN = NaN"
| "f_mul (Fin x) (Fin y) = rnd (x * y)"
| "f_mul PInf PInf = PInf"
| "f_mul PInf NInf = NInf"
| "f_mul NInf PInf = NInf"
| "f_mul NInf NInf = PInf"
| "f_mul (Fin x) PInf = (if x = 0 then NaN else signed_inf (x < 0))"
| "f_mul (Fin x) NInf = (if x = 0 then NaN else signed_inf (0 < x))"
| "f_mul PInf (Fin y) = (if y = 0 then NaN else signed_inf (y < 0))"
| "f_mul NInf (Fin y) = (if y = 0 then NaN else signed_inf (0 < y))"

text \<open>
  Division.  A finite non-zero number over zero is an infinity and zero over zero is
  NaN; the zero divisor is taken as positive.
\<close>

fun f_div :: "f64 \<Rightarrow> f64 \<Rightarrow> f64" where
  "f_div NaN _ = NaN"
| "f_div _ NaN = NaN"
| "f_div (Fin x) (Fin y) =
     (if y = 0 then (if x = 0 then NaN else signed_inf (x < 0)) else rnd (x / y))"
| "f_div (Fin x) PInf = Fin 0"
| "f_div (Fin x) NInf = Fin 0"
| "f_div PInf (Fin y) = signed_inf (y < 0)"
| "f_div NInf (Fin y) = signed_inf (0 \<le> y)"
| "f_div _ _ = NaN"

fun f_exp :: "f64 \<Rightarrow> f64" where
  "f_exp (Fin x) = rnd (exp x)"
| "f_exp PInf = PInf"
| "f_exp NInf = Fin 0"
| "f_exp NaN = NaN"

fun f_log :: "f64 \<Rightarrow> f64" where
  "f_log (Fin x) = (if x < 0 then NaN else if x = 0 then NInf else Fin (ln x))"
| "f_log PInf = PInf"
| "f_log NInf = NaN"
| "f_log NaN = NaN"

definition f_square :: "f64 \<Rightarrow> f64" where
  "f_square a = f_mul a a"

text \<open>
  \<open>np.power\<close> on doubles is C's \<open>pow\<close>: anything to the power zero is one and one
  to any power is one, even for NaN; otherwise NaN propagates; a negative finite base
  is defined only for an integral exponent.
\<close>

definition is_integral :: "real \<Rightarrow> bool" where
  "is_integral y = (y = of_int \<lfloor>y\<rfloor>)"

definition is_odd_integral :: "real \<Rightarrow> bool" where
  "is_odd_integral y = (is_integral y \<and> odd \<lfloor>y\<rfloor>)"

fun f_pow :: "f64 \<Rightarrow> f64 \<Rightarrow> f64" where
  "f_pow a (Fin y) =
     (if y = 0 then Fin 1
      else (case a of
         NaN \<Rightarrow> NaN
       | PInf \<Rightarrow> (if 0 < y then PInf else Fin 0)
       | NInf \<Rightarrow> (if 0 < y then (if is_odd_integral y then NInf else PInf) else Fin 0)
       | Fin x \<Rightarrow>
           (if x = 0 then (if 0 < y then Fin 0 else PInf)
            else if 0 < x then rnd (x powr y)
            else if is_integral y
              then rnd ((if is_odd_integral y then - 1 else 1) * (\<bar>x\<bar> powr y))
              else NaN)))"
| "f_pow a NaN = (if a = Fin 1 then Fin 1 else NaN)"
| "f_pow a PInf =
     (case a of
        NaN \<Rightarrow> NaN
      | Fin x \<Rightarrow> (if \<bar>x\<bar> < 1 then Fin 0 else if \<bar>x\<bar> = 1 then Fin 1 else PInf)
      | _ \<Rightarrow> PInf)"
| "f_pow a NInf =
     (case a of
        NaN \<Rightarrow> NaN
      | Fin x \<Rightarrow> (if \<bar>x\<bar> < 1 then PInf else if \<bar>x\<bar> = 1 then Fin 1 else Fin 0)
      | _ \<Rightarrow> Fin 0)"

section \<open>Arrays\<close>

text \<open>
  An \<open>ndarray\<close> of dtype float64: its shape and its elements in row-major order.
\<close>

record ndarray =
  shape :: "nat list"
  elems :: "f64 list"

definition map_arr :: "(f64 \<Rightarrow> f64) \<Rightarrow> ndarray \<Rightarrow> ndarray" where
  "map_arr f a = a\<lparr>elems := map f (elems a)\<rparr>"

text \<open>\<open>np.where(cond, y, nan)\<close> with \<open>cond\<close> computed elementwise from \<open>c\<close>.\<close>

definition np_where_nan :: "(f64 \<Rightarrow> bool) \<Rightarrow> ndarray \<Rightarrow> ndarray \<Rightarrow> ndarray" where
  "np_where_nan cond c y =
     y\<lparr>elems := map (\<lambda>(ci, yi). if cond ci then yi else NaN) (zip (elems c) (elems y))\<rparr>"

text \<open>
  \<open>np.empty_like\<close> returns memory that is not initialised: its contents are whatever
  the allocator hands out, here the function \<open>mem\<close> from positions to values.
\<close>

definition np_empty_like :: "(nat \<Rightarrow> f64) \<Rightarrow> ndarray \<Rightarrow> ndarray" where
  "np_empty_like mem a = a\<lparr>elems := map mem [0..<length (elems a)]\<rparr>"

text \<open>
  \<open>np.divide(1.0, denom, out=out, where=cond)\<close>: the quotient is written where the
  mask holds and \<open>out\<close> keeps its previous content elsewhere.
\<close>

definition np_divide_where :: "f64 \<Rightarrow> ndarray \<Rightarrow> ndarray \<Rightarrow> (f64 \<Rightarrow> bool) \<Rightarrow> ndarray" where
  "np_divide_where num denom out cond =
     out\<lparr>elems := map (\<lambda>(d, o_i). if cond d then f_div num d else o_i)
                      (zip (elems denom) (elems out))\<rparr>"

definition np_full_like :: "ndarray \<Rightarrow> f64 \<Rightarrow> ndarray" where
  "np_full_like a v = a\<lparr>elems := replicate (length (elems a)) v\<rparr>"

section \<open>Python values and conversion to float\<close>

datatype exc_class = TypeErrorC | ValueErrorC | OverflowErrorC

text \<open>
  An exception is either the \<open>TypeError\<close> that \<open>_value\<close> raises itself, with its
  message, or one raised by the interpreter or by NumPy, of which only the class is
  kept.
\<close>

datatype py_error = TypeError string | Builtin exc_class

type_synonym 'a result = "py_error + 'a"

definition bind_err :: "'a result \<Rightarrow> ('a \<Rightarrow> 'b result) \<Rightarrow> 'b result" where
  "bind_err r f = (case r of Inl e \<Rightarrow> Inl e | Inr v \<Rightarrow> f v)"

text \<open>
  The values a caller can pass as a parameter or as an element of the input: numbers,
  strings, \<open>None\<close>, and an object of some class that may carry a \<open>value\<close> attribute
  (a slider of marimo or ipywidgets) and has no \<open>__float__\<close> of its own.
\<close>

datatype pyval =
    PFloat f64
  | PInt int
  | PBool bool
  | PStr string "f64 option"
  | PNone
  | PObj string "pyval option"

text \<open>
  \<open>PStr s r\<close> is the string \<open>s\<close> together with what Python's float grammar makes of
  its text: \<open>Some\<close> of the number it denotes, or \<open>None\<close> when the text is not a float
  literal (then \<open>float(s)\<close> raises \<open>ValueError\<close>).  \<open>PObj c a\<close> is an instance of the
  class named \<open>c\<close> whose attribute \<open>value\<close> is \<open>a\<close>, if it has one.
\<close>

text \<open>
  The built-in \<open>float(raw)\<close>.  An \<open>int\<close> is rounded to the nearest double: up to
  half a unit in the last place above the largest double it becomes the largest
  double, and from there on \<open>float\<close> raises \<open>OverflowError\<close>.
\<close>

fun py_float :: "pyval \<Rightarrow> f64 result" where
  "py_float (PFloat f) = Inr f"
| "py_float (PInt i) =
     (if MAXF + 2 ^ 970 \<le> \<bar>real_of_int i\<bar> then Inl (Builtin OverflowErrorC)
      else if MAXF < real_of_int i then Inr (Fin MAXF)
      else if real_of_int i < - MAXF then Inr (Fin (- MAXF))
      else Inr (Fin (real_of_int i)))"
| "py_float (PBool b) = Inr (Fin (if b then 1 else 0))"
| "py_float (PStr s r) = (case r of None \<Rightarrow> Inl (Builtin ValueErrorC) | Some f \<Rightarrow> Inr f)"
| "py_float PNone = Inl (Builtin TypeErrorC)"
| "py_float (PObj c a) = Inl (Builtin TypeErrorC)"

declare py_float.simps(2) [simp del]

text \<open>
  The conversion NumPy applies to one element under \<open>dtype=float\<close>: as \<open>float\<close>,
  except that \<open>None\<close> becomes NaN.
\<close>

fun np_float :: "pyval \<Rightarrow> f64 result" where
  "np_float PNone = Inr NaN"
| "np_float v = py_float v"

text \<open>\<open>repr(type(v))\<close>, for instance \<^verbatim>\<open><class 'float'>\<close>.\<close>

definition class_repr :: "string \<Rightarrow> string" where
  "class_repr c = ''<class '' @ [CHR 0x27] @ c @ [CHR 0x27] @ ''>''"

fun type_repr :: "pyval \<Rightarrow> string" where
  "type_repr (PFloat _) = class_repr ''float''"
| "type_repr (PInt _) = class_repr ''int''"
| "type_repr (PBool _) = class_repr ''bool''"
| "type_repr (PStr _ _) = class_repr ''str''"
| "type_repr PNone = class_repr ''NoneType''"
| "type_repr (PObj c _) = class_repr c"

text \<open>\<open>getattr(v, "value", v)\<close>.\<close>

fun getattr_value :: "pyval \<Rightarrow> pyval" where
  "getattr_value (PObj c (Some w)) = w"
| "getattr_value v = v"

text \<open>
  \<open>_value\<close> of \<open>base.py\<close>: \<open>TypeError\<close> and \<open>ValueError\<close> of \<open>float\<close> are caught
  and replaced by a \<open>TypeError\<close> that names the type of \<open>v\<close>; any other exception
  passes through.
\<close>

definition cannot_convert :: "pyval \<Rightarrow> string" where
  "cannot_convert v =
     ''Cannot convert '' @ type_repr v @ '' to float; expected a number or an object with .value''"

definition value_of :: "pyval \<Rightarrow> f64 result" where
  "value_of v =
     (let raw = getattr_value v in
      case py_float raw of
        Inr f \<Rightarrow> Inr f
      | Inl (Builtin TypeErrorC) \<Rightarrow> Inl (TypeError (cannot_convert v))
      | Inl (Builtin ValueErrorC) \<Rightarrow> Inl (TypeError (cannot_convert v))
      | Inl e \<Rightarrow> Inl e)"

section \<open>Array-likes and \<open>np.asarray(x, dtype=float)\<close>\<close>

datatype arraylike = NdArr ndarray | Elem pyval | Seq "arraylike list"

fun common_shape :: "nat \<Rightarrow> nat list option list \<Rightarrow> nat list option" where
  "common_shape n [] = Some [0]"
| "common_shape n (s # ss) =
     (case s of
        None \<Rightarrow> None
      | Some sh \<Rightarrow> if list_all (\<lambda>t. t = Some sh) ss then Some (n # sh) else None)"

text \<open>The shape NumPy discovers; \<open>None\<close> for a ragged nesting.\<close>

fun al_shape :: "arraylike \<Rightarrow> nat list option" where
  "al_shape (NdArr a) = Some (shape a)"
| "al_shape (Elem v) = Some []"
| "al_shape (Seq xs) = common_shape (length xs) (map al_shape xs)"

fun collect :: "'a result list \<Rightarrow> 'a list result" where
  "collect [] = Inr []"
| "collect (r # rs) = bind_err r (\<lambda>v. bind_err (collect rs) (\<lambda>vs. Inr (v # vs)))"

fun al_elems :: "arraylike \<Rightarrow> f64 list result" where
  "al_elems (NdArr a) = Inr (elems a)"
| "al_elems (Elem v) = bind_err (np_float v) (\<lambda>f. Inr [f])"
| "al_elems (Seq xs) = bind_err (collect (map al_elems xs)) (\<lambda>yss. Inr (concat yss))"

definition np_asarray :: "arraylike \<Rightarrow> ndarray result" where
  "np_asarray x =
     (case al_shape x of
        None \<Rightarrow> Inl (Builtin ValueErrorC)
      | Some s \<Rightarrow> bind_err (al_elems x) (\<lambda>es. Inr \<lparr>shape = s, elems = es\<rparr>))"

section \<open>The curve functions\<close>

text \<open>
  Each takes the input as an array-like and its parameters as floats, as the
  annotations say, and returns the array or raises what \<open>np.asarray\<close> raises.
  \<open>astype(np.float64, copy=False)\<close> on a float64 array is the identity.
\<close>

subsection \<open>\<open>dispersal_kernels.py\<close>\<close>

definition full_nan_like :: "arraylike \<Rightarrow> ndarray result" where
  "full_nan_like x = bind_err (np_asarray x) (\<lambda>x_arr. Inr (np_full_like x_arr NaN))"

definition kernel_exponential :: "arraylike \<Rightarrow> f64 \<Rightarrow> ndarray result" where
  "kernel_exponential distance lam =
     (if f_le lam (Fin 0) then full_nan_like distance
      else bind_err (np_asarray distance) (\<lambda>r.
        let y = map_arr f_exp (map_arr (\<lambda>v. f_div (f_neg v) lam) r)
        in Inr y))"

definition kernel_gaussian :: "arraylike \<Rightarrow> f64 \<Rightarrow> ndarray result" where
  "kernel_gaussian distance sigma =
     (if f_le sigma (Fin 0) then full_nan_like distance
      else bind_err (np_asarray distance) (\<lambda>r.
        let y = map_arr f_exp (map_arr f_neg (map_arr f_square (map_arr (\<lambda>v. f_div v sigma) r)))
        in Inr y))"

definition kernel_powerlaw :: "arraylike \<Rightarrow> f64 \<Rightarrow> f64 \<Rightarrow> ndarray result" where
  "kernel_powerlaw distance alpha p =
     (if f_le alpha (Fin 0) \<or> f_le p (Fin 0) then full_nan_like distance
      else bind_err (np_asarray distance) (\<lambda>r.
        let base = map_arr (\<lambda>v. f_add (Fin 1) (f_div v alpha)) r;
            y = map_arr (\<lambda>v. f_pow v (f_neg p)) base;
            y = np_where_nan (\<lambda>c. f_gt c (Fin 0)) base y
        in Inr y))"

text \<open>
  The \<open>with\<close> block of \<open>kernel_rectangular_hyperbola\<close>: the denominator, and the
  quotient written into a fresh, uninitialised array where the denominator is not
  zero.
\<close>

definition rh_quotient :: "(nat \<Rightarrow> f64) \<Rightarrow> ndarray \<Rightarrow> f64 \<Rightarrow> f64 \<Rightarrow> ndarray \<times> ndarray" where
  "rh_quotient mem r alpha p =
     (let ratio = map_arr (\<lambda>v. f_div v alpha) r;
          denom = map_arr (\<lambda>v. f_add (Fin 1) (f_pow v p)) ratio;
          y = np_divide_where (Fin 1) denom (np_empty_like mem ratio) (\<lambda>d. f_ne d (Fin 0))
      in (denom, y))"

definition kernel_rectangular_hyperbola ::
    "(nat \<Rightarrow> f64) \<Rightarrow> arraylike \<Rightarrow> f64 \<Rightarrow> f64 \<Rightarrow> ndarray result" where
  "kernel_rectangular_hyperbola mem distance alpha p =
     (if f_le alpha (Fin 0) \<or> f_le p (Fin 0) then full_nan_like distance
      else bind_err (np_asarray distance) (\<lambda>r.
        let (denom, y) = rh_quotient mem r alpha p;
            y = np_where_nan (\<lambda>c. f_gt c (Fin 0)) denom y
        in Inr y))"

definition kernel_exppower :: "arraylike \<Rightarrow> f64 \<Rightarrow> f64 \<Rightarrow> ndarray result" where
  "kernel_exppower distance lam q =
     (if f_le lam (Fin 0) \<or> f_le q (Fin 0) then full_nan_like distance
      else bind_err (np_asarray distance) (\<lambda>r.
        let y = map_arr f_exp (map_arr f_neg (map_arr (\<lambda>v. f_pow v q) (map_arr (\<lambda>v. f_div v lam) r)))
        in Inr y))"

subsection \<open>\<open>power_law_decay.py\<close> and \<open>log_growth.py\<close>\<close>

definition power_law_decay :: "arraylike \<Rightarrow> f64 \<Rightarrow> f64 \<Rightarrow> f64 \<Rightarrow> ndarray result" where
  "power_law_decay x a p b =
     bind_err (np_asarray x) (\<lambda>x_arr.
       let domain = map_arr (\<lambda>v. f_add v b) x_arr;
           y = map_arr (\<lambda>d. f_mul a (f_pow d (f_neg p))) domain;
           y = np_where_nan (\<lambda>c. f_gt c (Fin 0)) domain y
       in Inr y)"

definition log_growth :: "arraylike \<Rightarrow> f64 \<Rightarrow> f64 \<Rightarrow> ndarray result" where
  "log_growth x a b =
     bind_err (np_asarray x) (\<lambda>x_arr.
       let domain = map_arr (\<lambda>v. f_add v b) x_arr;
           y = map_arr (\<lambda>d. f_mul a (f_log d)) domain;
           y = np_where_nan (\<lambda>c. f_gt c (Fin 0)) domain y
       in Inr y)"

section \<open>Parameter-bound functions (\<open>base.py\<close> and the seven dataclasses)\<close>

text \<open>
  One constructor per dataclass, with its fields in declaration order.  A field holds
  whatever the caller bound: a number or a widget-like object.
\<close>

datatype bound =
    PowerLawDecay pyval pyval pyval
  | LogGrowth pyval pyval
  | ExponentialKernel pyval
  | GaussianKernel pyval
  | PowerLawKernel pyval pyval
  | ExpPowerKernel pyval pyval
  | RectangularHyperbolaKernel pyval pyval

text \<open>The property \<open>parameters\<close>: a dict, which keeps the order of insertion.\<close>

fun parameters :: "bound \<Rightarrow> (string \<times> pyval) list" where
  "parameters (PowerLawDecay a p b) = [(''a'', a), (''p'', p), (''b'', b)]"
| "parameters (LogGrowth a b) = [(''a'', a), (''b'', b)]"
| "parameters (ExponentialKernel lam) = [(''lam'', lam)]"
| "parameters (GaussianKernel sigma) = [(''sigma'', sigma)]"
| "parameters (PowerLawKernel alpha p) = [(''alpha'', alpha), (''p'', p)]"
| "parameters (ExpPowerKernel lam q) = [(''lam'', lam), (''q'', q)]"
| "parameters (RectangularHyperbolaKernel alpha p) = [(''alpha'', alpha), (''p'', p)]"

definition bs :: string where
  "bs = [CHR 0x5C]"

text \<open>
  The class attribute \<open>MATH_TEMPLATE\<close>; \<open>bs\<close> is one backslash.  The two templates
  of \<open>power_law_decay.py\<close> and \<open>log_growth.py\<close> are raw strings with doubled
  backslashes.
\<close>

fun MATH_TEMPLATE :: "bound \<Rightarrow> string" where
  "MATH_TEMPLATE (PowerLawDecay _ _ _) =
     ''$f(x) = a '' @ bs @ bs @ ''cdot (x + b)^{-p}$''"
| "MATH_TEMPLATE (LogGrowth _ _) =
     ''$f(x) = a '' @ bs @ bs @ ''cdot '' @ bs @ bs @ ''ln(x + b)$''"
| "MATH_TEMPLATE (ExponentialKernel _) =
     ''$K(r) = '' @ bs @ ''exp'' @ bs @ ''!'' @ bs @ ''left(-'' @ bs @ ''dfrac{r}{'' @ bs
       @ ''lambda}'' @ bs @ ''right)$''"
| "MATH_TEMPLATE (GaussianKernel _) =
     ''$K(r) = '' @ bs @ ''exp'' @ bs @ ''!'' @ bs @ ''left(-'' @ bs @ ''left('' @ bs
       @ ''dfrac{r}{'' @ bs @ ''sigma}'' @ bs @ ''right)^2'' @ bs @ ''right)$''"
| "MATH_TEMPLATE (PowerLawKernel _ _) =
     ''$K(r) = '' @ bs @ ''left(1 + '' @ bs @ ''dfrac{r}{'' @ bs @ ''alpha}'' @ bs
       @ ''right)^{-p}$''"
| "MATH_TEMPLATE (ExpPowerKernel _ _) =
     ''$K(r) = '' @ bs @ ''exp'' @ bs @ ''!'' @ bs @ ''left(-'' @ bs @ ''left('' @ bs
       @ ''dfrac{r}{'' @ bs @ ''lambda}'' @ bs @ ''right)^{q}'' @ bs @ ''right)$''"
| "MATH_TEMPLATE (RectangularHyperbolaKernel _ _) =
     ''$K(r) = '' @ bs @ ''dfrac{1}{1 + '' @ bs @ ''left('' @ bs @ ''dfrac{r}{'' @ bs
       @ ''alpha}'' @ bs @ ''right)^{p}}$''"

text \<open>
  A keyword argument of the call \<open>fn(x, **params)\<close>; a missing one is a
  \<open>TypeError\<close> of the interpreter.
\<close>

definition kwarg :: "(string \<times> f64) list \<Rightarrow> string \<Rightarrow> f64 result" where
  "kwarg kw name = (case map_of kw name of None \<Rightarrow> Inl (Builtin TypeErrorC) | Some v \<Rightarrow> Inr v)"

text \<open>
  The property \<open>fn\<close>, applied to \<open>x\<close> and the keyword arguments.  \<open>mem\<close> is the
  content of the memory that \<open>np.empty_like\<close> hands to the rectangular hyperbola.
\<close>

fun fn :: "(nat \<Rightarrow> f64) \<Rightarrow> bound \<Rightarrow> arraylike \<Rightarrow> (string \<times> f64) list \<Rightarrow> ndarray result" where
  "fn mem (PowerLawDecay _ _ _) x kw =
     bind_err (kwarg kw ''a'') (\<lambda>a. bind_err (kwarg kw ''p'') (\<lambda>p.
       bind_err (kwarg kw ''b'') (\<lambda>b. power_law_decay x a p b)))"
| "fn mem (LogGrowth _ _) x kw =
     bind_err (kwarg kw ''a'') (\<lambda>a. bind_err (kwarg kw ''b'') (\<lambda>b. log_growth x a b))"
| "fn mem (ExponentialKernel _) x kw =
     bind_err (kwarg kw ''lam'') (\<lambda>lam. kernel_exponential x lam)"
| "fn mem (GaussianKernel _) x kw =
     bind_err (kwarg kw ''sigma'') (\<lambda>sigma. kernel_gaussian x sigma)"
| "fn mem (PowerLawKernel _ _) x kw =
     bind_err (kwarg kw ''alpha'') (\<lambda>alpha. bind_err (kwarg kw ''p'') (\<lambda>p.
       kernel_powerlaw x alpha p))"
| "fn mem (ExpPowerKernel _ _) x kw =
     bind_err (kwarg kw ''lam'') (\<lambda>lam. bind_err (kwarg kw ''q'') (\<lambda>q.
       kernel_exppower x lam q))"
| "fn mem (RectangularHyperbolaKernel _ _) x kw =
     bind_err (kwarg kw ''alpha'') (\<lambda>alpha. bind_err (kwarg kw ''p'') (\<lambda>p.
       kernel_rectangular_hyperbola mem x alpha p))"

text \<open>
  The dict comprehension \<open>{k: _value(v) for k, v in self.parameters.items()}\<close>: the
  first \<open>_value\<close> that raises ends it.
\<close>

fun coerce :: "(string \<times> pyval) list \<Rightarrow> (string \<times> f64) list result" where
  "coerce [] = Inr []"
| "coerce ((k, v) # kvs) =
     bind_err (value_of v) (\<lambda>f. bind_err (coerce kvs) (\<lambda>r. Inr ((k, f) # r)))"

text \<open>\<open>BaseFunction.__call__\<close>.\<close>

definition call :: "(nat \<Rightarrow> f64) \<Rightarrow> bound \<Rightarrow> arraylike \<Rightarrow> ndarray result" where
  "call mem self x = bind_err (coerce (parameters self)) (\<lambda>params. fn mem self x params)"

text \<open>\<open>BaseFunction.math_str\<close>.\<close>

definition math_str :: "bound \<Rightarrow> string" where
  "math_str self = MATH_TEMPLATE self"

subsection \<open>Fixed-point formatting\<close>

definition digit_char :: "nat \<Rightarrow> char" where
  "digit_char d = ''0123456789'' ! d"

fun str_nat :: "nat \<Rightarrow> string" where
  "str_nat n =
     (if n < 10 then [digit_char n] else str_nat (n div 10) @ [digit_char (n mod 10)])"

declare str_nat.simps [simp del]

definition round_half_even :: "real \<Rightarrow> nat" where
  "round_half_even r =
     (let f = \<lfloor>r\<rfloor>; d = r - of_int f
      in nat (if d < 1 / 2 then f else if 1 / 2 < d then f + 1
              else if even f then f else f + 1))"

definition zfill :: "nat \<Rightarrow> string \<Rightarrow> string" where
  "zfill n s = replicate (n - length s) (CHR ''0'') @ s"

text \<open>
  The format \<open>.nf\<close> of a float: the exact value rounded to \<open>n\<close> decimals, a tie going
  to the even digit; a negative value keeps its sign even when it rounds to zero.
\<close>

fun format_fixed :: "nat \<Rightarrow> f64 \<Rightarrow> string" where
  "format_fixed n NaN = ''nan''"
| "format_fixed n PInf = ''inf''"
| "format_fixed n NInf = ''-inf''"
| "format_fixed n (Fin x) =
     (let scaled = round_half_even (\<bar>x\<bar> * 10 ^ n);
          ip = scaled div 10 ^ n;
          fp = scaled mod 10 ^ n
      in (if x < 0 then ''-'' else []) @ str_nat ip
         @ (if n = 0 then [] else ''.'' @ zfill n (str_nat fp)))"

text \<open>
  \<open>f"{val:.{precision}f}"\<close>: a negative precision makes the format specification
  invalid, and a precision beyond the largest C \<open>int\<close> is refused as too big; both
  are a \<open>ValueError\<close>.  Running out of memory on a very long result is outside the
  model.
\<close>

definition format_f :: "int \<Rightarrow> f64 \<Rightarrow> string result" where
  "format_f precision val =
     (if precision < 0 \<or> 2 ^ 31 \<le> precision then Inl (Builtin ValueErrorC)
      else Inr (format_fixed (nat precision) val))"

fun join :: "string \<Rightarrow> string list \<Rightarrow> string" where
  "join sep [] = []"
| "join sep [s] = s"
| "join sep (s # t # ts) = s @ sep @ join sep (t # ts)"

text \<open>The loop of \<open>BaseFunction.params_str\<close> over \<open>self.parameters.items()\<close>.\<close>

fun params_items :: "int \<Rightarrow> (string \<times> pyval) list \<Rightarrow> string list result" where
  "params_items precision [] = Inr []"
| "params_items precision ((k, v) # kvs) =
     bind_err (value_of v) (\<lambda>val.
       bind_err (format_f precision val) (\<lambda>s.
         bind_err (params_items precision kvs) (\<lambda>items. Inr ((k @ ''='' @ s) # items))))"

definition params_str :: "bound \<Rightarrow> int \<Rightarrow> string \<Rightarrow> string result" where
  "params_str self precision sep =
     bind_err (params_items precision (parameters self)) (\<lambda>items. Inr (join sep items))"


section \<open>Predicates of the statements\<close>

text \<open>\<open>y\<close> has the shape and size of \<open>a\<close> and every element of it is NaN.\<close>

definition all_nan_like :: "ndarray \<Rightarrow> ndarray \<Rightarrow> bool" where
  "all_nan_like a y =
     (shape y = shape a \<and> length (elems y) = length (elems a) \<and> list_all is_nan (elems y))"

text \<open>The call returned an array, of the shape and size of \<open>a\<close>.\<close>

definition same_shape :: "ndarray \<Rightarrow> ndarray result \<Rightarrow> bool" where
  "same_shape a r =
     (case r of Inl e \<Rightarrow> False
      | Inr y \<Rightarrow> shape y = shape a \<and> length (elems y) = length (elems a))"

text \<open>
  The call returned an array of the size of \<open>a\<close> that is NaN wherever \<open>a\<close> is.
\<close>

definition nan_propagates :: "ndarray \<Rightarrow> ndarray result \<Rightarrow> bool" where
  "nan_propagates a r =
     (case r of Inl e \<Rightarrow> False
      | Inr y \<Rightarrow> length (elems y) = length (elems a)
          \<and> (\<forall>i < length (elems a). is_nan (elems a ! i) \<longrightarrow> is_nan (elems y ! i)))"

text \<open>
  Two values agree within \<open>tol\<close>: both finite and no further apart, or the same
  special value (two NaNs count as agreeing, as in \<open>numpy.testing.assert_allclose\<close>).
\<close>

fun close_to :: "real \<Rightarrow> f64 \<Rightarrow> f64 \<Rightarrow> bool" where
  "close_to tol (Fin u) (Fin v) = (\<bar>u - v\<bar> \<le> tol)"
| "close_to tol u v = (u = v)"

definition arrays_close :: "real \<Rightarrow> ndarray result \<Rightarrow> ndarray result \<Rightarrow> bool" where
  "arrays_close tol r s =
     (case (r, s) of
        (Inr y, Inr z) \<Rightarrow> shape y = shape z \<and> list_all2 (close_to tol) (elems y) (elems z)
      | _ \<Rightarrow> False)"

text \<open>
  What the specification says \<open>params_str\<close> writes for one parameter: \<open>name=value\<close>
  with the value in fixed-point notation.
\<close>

definition render_param :: "nat \<Rightarrow> string \<times> f64 \<Rightarrow> string" where
  "render_param n kv = fst kv @ ''='' @ format_fixed n (snd kv)"

definition is_digit :: "char \<Rightarrow> bool" where
  "is_digit c = (c \<in> set ''0123456789'')"

text \<open>
  The string ends in a point followed by exactly \<open>n\<close> digits; for \<open>n = 0\<close>, it has no
  point.
\<close>

definition has_decimals :: "nat \<Rightarrow> string \<Rightarrow> bool" where
  "has_decimals n s =
     (if n = 0 then CHR ''.'' \<notin> set s
      else n < length s \<and> s ! (length s - n - 1) = CHR ''.''
           \<and> list_all is_digit (drop (length s - n) s))"

text \<open>
  A number, and a number or a widget-like holder of one: the values the docstring of
  \<open>_value\<close> names as supported.
\<close>

fun is_number :: "pyval \<Rightarrow> bool" where
  "is_number (PFloat _) = True"
| "is_number (PInt _) = True"
| "is_number (PBool _) = True"
| "is_number _ = False"

fun is_number_or_holder :: "pyval \<Rightarrow> bool" where
  "is_number_or_holder (PObj c (Some w)) = is_number w"
| "is_number_or_holder v = is_number v"

text \<open>\<open>type(self).__name__\<close>: the dataclass an instance belongs to.\<close>

fun class_name :: "bound \<Rightarrow> string" where
  "class_name (PowerLawDecay _ _ _) = ''PowerLawDecay''"
| "class_name (LogGrowth _ _) = ''LogGrowth''"
| "class_name (ExponentialKernel _) = ''ExponentialKernel''"
| "class_name (GaussianKernel _) = ''GaussianKernel''"
| "class_name (PowerLawKernel _ _) = ''PowerLawKernel''"
| "class_name (ExpPowerKernel _ _) = ''ExpPowerKernel''"
| "class_name (RectangularHyperbolaKernel _ _) = ''RectangularHyperbolaKernel''"

text \<open>
  The first bound parameter, in declared order, on which \<open>_value\<close> raises, with the
  error it raises; \<open>None\<close> when every parameter converts.
\<close>

fun first_error :: "(string \<times> pyval) list \<Rightarrow> (string \<times> pyval \<times> py_error) option" where
  "first_error [] = None"
| "first_error ((k, v) # kvs) =
     (case value_of v of Inl e \<Rightarrow> Some (k, v, e) | Inr f \<Rightarrow> first_error kvs)"

text \<open>\<open>float\<close> accepts the raw value of \<open>v\<close>.\<close>

definition float_accepts :: "pyval \<Rightarrow> bool" where
  "float_accepts v = (case py_float (getattr_value v) of Inl e \<Rightarrow> False | Inr f \<Rightarrow> True)"

text \<open>
  The error \<open>_value(v)\<close> raises is the \<open>TypeError\<close> with the type of \<open>v\<close> in its
  message, for a \<open>TypeError\<close> or \<open>ValueError\<close> of \<open>float\<close>, or the
  \<open>OverflowError\<close> of \<open>float\<close> itself.
\<close>

definition value_error :: "pyval \<Rightarrow> py_error \<Rightarrow> bool" where
  "value_error v e =
     ((py_float (getattr_value v) = Inl (Builtin TypeErrorC)
         \<or> py_float (getattr_value v) = Inl (Builtin ValueErrorC))
        \<and> e = TypeError (cannot_convert v)
      \<or> py_float (getattr_value v) = Inl (Builtin OverflowErrorC)
        \<and> e = Builtin OverflowErrorC)"

section \<open>Sample inputs\<close>

text \<open>The list \<open>[0.0, -1.0, nan]\<close> and the array of three NaNs.\<close>

definition xs3 :: arraylike where
  "xs3 = Seq [Elem (PFloat (Fin 0)), Elem (PFloat (Fin (- 1))), Elem (PFloat NaN)]"

definition nan3 :: ndarray where
  "nan3 = \<lparr>shape = [3], elems = [NaN, NaN, NaN]\<rparr>"

text \<open>The nested list \<open>[[0, 1.0], [inf, nan]]\<close> and the array NumPy makes of it.\<close>

definition grid22 :: arraylike where
  "grid22 = Seq [Seq [Elem (PInt 0), Elem (PFloat (Fin 1))],
                 Seq [Elem (PFloat PInf), Elem (PFloat NaN)]]"

definition arr22 :: ndarray where
  "arr22 = \<lparr>shape = [2, 2], elems = [Fin 0, Fin 1, PInf, NaN]\<rparr>"

text \<open>
  \<open>[-2.0, 0.0]\<close>: with \<open>alpha = 2\<close> and \<open>p = 1\<close> the first denominator of the
  rectangular hyperbola is \<open>1 + (-1) = 0\<close>.
\<close>

definition rh_in :: arraylike where
  "rh_in = Seq [Elem (PFloat (Fin (- 2))), Elem (PFloat (Fin 0))]"

text \<open>\<open>[-1, 1.0, nan]\<close>, and the double \<open>2 ** -600\<close>, whose inverse square overflows.\<close>

definition pm1 :: arraylike where
  "pm1 = Seq [Elem (PInt (- 1)), Elem (PFloat (Fin 1)), Elem (PFloat NaN)]"

definition tiny :: real where
  "tiny = 1 / 2 ^ 600"

text \<open>A content of uninitialised memory: infinities everywhere.\<close>

definition junk :: "nat \<Rightarrow> f64" where
  "junk i = PInf"

text \<open>
  \<open>PowerLawDecay(a=1.5, p=1, b=slider)\<close> with a slider at \<open>-0.125\<close>; the string
  \<open>"2.5"\<close>; the list \<open>["abc"]\<close>; and \<open>LogGrowth(a=1.0, b="abc")\<close>.
\<close>

definition decay_widgets :: bound where
  "decay_widgets = PowerLawDecay (PFloat (Fin (3 / 2))) (PInt 1)
                     (PObj ''__main__.Slider'' (Some (PFloat (Fin (- 1 / 8)))))"

definition two_and_a_half :: pyval where
  "two_and_a_half = PStr ''2.5'' (Some (Fin (5 / 2)))"

definition not_a_number :: arraylike where
  "not_a_number = Seq [Elem (PStr ''abc'' None)]"

definition growth_bad :: bound where
  "growth_bad = LogGrowth (PFloat (Fin 1)) (PStr ''abc'' None)"

text \<open>An \<open>int\<close> too large for a float.\<close>

definition huge :: int where
  "huge = 2 ^ 1200"

section \<open>Basic facts\<close>

lemma bind_err_simps [simp]:
  "bind_err (Inl e) f = Inl e"
  "bind_err (Inr v) f = f v"
  by (simp_all add: bind_err_def)

lemma arr_simps [simp]:
  "shape (map_arr f a) = shape a"
  "elems (map_arr f a) = map f (elems a)"
  "shape (np_where_nan c d y) = shape y"
  "elems (np_where_nan c d y) = map (\<lambda>(ci, yi). if c ci then yi else NaN) (zip (elems d) (elems y))"
  "shape (np_full_like a v) = shape a"
  "elems (np_full_like a v) = replicate (length (elems a)) v"
  "shape (np_empty_like mem a) = shape a"
  "elems (np_empty_like mem a) = map mem [0..<length (elems a)]"
  "shape (np_divide_where n d out c) = shape out"
  "elems (np_divide_where n d out c) =
     map (\<lambda>(d, o_i). if c d then f_div n d else o_i) (zip (elems d) (elems out))"
  by (simp_all add: map_arr_def np_where_nan_def np_full_like_def np_empty_like_def
      np_divide_where_def)

lemma MAXF_pos [simp]: "0 < MAXF"
  by (simp add: MAXF_def)

lemma MAXF_ge [simp]: "\<not> MAXF < 0" "1 \<le> MAXF" "\<not> MAXF < 1"
  by (simp_all add: MAXF_def)

lemma MAXF_not_less [simp]: "x \<le> 2 ^ 53 \<Longrightarrow> \<not> MAXF < x"
proof -
  have "(2::real) ^ 53 \<le> MAXF" by (simp add: MAXF_def)
  then show "x \<le> 2 ^ 53 \<Longrightarrow> \<not> MAXF < x" by linarith
qed

lemma py_float_small_int [simp]:
  "\<bar>i\<bar> \<le> 2 ^ 53 \<Longrightarrow> py_float (PInt i) = Inr (Fin (real_of_int i))"
proof -
  assume "\<bar>i\<bar> \<le> 2 ^ 53"
  then have "real_of_int \<bar>i\<bar> \<le> real_of_int (2 ^ 53)"
    by (simp only: of_int_le_iff)
  then have "\<bar>real_of_int i\<bar> \<le> 2 ^ 53" by simp
  moreover have "(2::real) ^ 53 \<le> MAXF" by (simp add: MAXF_def)
  ultimately have "\<bar>real_of_int i\<bar> \<le> MAXF" by linarith
  then show ?thesis by (auto simp add: py_float.simps(2))
qed

lemma rnd_in_range: "\<bar>x\<bar> \<le> MAXF \<Longrightarrow> rnd x = Fin x"
  by (auto simp add: rnd_def)

lemma rnd_0 [simp]: "rnd 0 = Fin 0"
  by (simp add: rnd_def)

lemma rnd_1 [simp]: "rnd 1 = Fin 1"
  using MAXF_pos by (simp add: rnd_def del: MAXF_pos)

lemma rnd_small [simp]: "\<bar>x\<bar> \<le> 2 ^ 53 \<Longrightarrow> rnd x = Fin x"
proof -
  have "(2::real) ^ 53 \<le> MAXF" by (simp add: MAXF_def)
  then show "\<bar>x\<bar> \<le> 2 ^ 53 \<Longrightarrow> rnd x = Fin x"
    by (intro rnd_in_range) linarith
qed

lemma rnd_exp_nonpos [simp]: "x \<le> 0 \<Longrightarrow> rnd (exp x) = Fin (exp x)"
proof -
  assume "x \<le> 0"
  then have "exp x \<le> 1" by simp
  moreover have "0 < exp x" by simp
  ultimately have "\<bar>exp x\<bar> \<le> MAXF" using MAXF_ge(2) by linarith
  then show ?thesis by (rule rnd_in_range)
qed

lemma xs3_asarray: "np_asarray xs3 = Inr \<lparr>shape = [3], elems = [Fin 0, Fin (- 1), NaN]\<rparr>"
  by (simp add: xs3_def np_asarray_def)

lemma grid22_asarray: "np_asarray grid22 = Inr arr22"
  by (simp add: grid22_def arr22_def np_asarray_def)

section \<open>What each curve function computes, element by element\<close>

lemma full_nan_like_eq: "np_asarray x = Inr a \<Longrightarrow> full_nan_like x = Inr (np_full_like a NaN)"
  by (simp add: full_nan_like_def)

lemma where_map:
  "map (\<lambda>(ci, yi). if c ci then yi else NaN) (zip (map f xs) (map g xs))
     = map (\<lambda>v. if c (f v) then g v else NaN) xs"
  by (induction xs) auto

lemma power_law_decay_eq:
  "np_asarray x = Inr a \<Longrightarrow>
   power_law_decay x pa pp pb =
     Inr (a\<lparr>elems := map (\<lambda>v. if f_gt (f_add v pb) (Fin 0)
                               then f_mul pa (f_pow (f_add v pb) (f_neg pp)) else NaN) (elems a)\<rparr>)"
  by (simp add: power_law_decay_def Let_def np_where_nan_def map_arr_def where_map)

lemma log_growth_eq:
  "np_asarray x = Inr a \<Longrightarrow>
   log_growth x pa pb =
     Inr (a\<lparr>elems := map (\<lambda>v. if f_gt (f_add v pb) (Fin 0)
                               then f_mul pa (f_log (f_add v pb)) else NaN) (elems a)\<rparr>)"
  by (simp add: log_growth_def Let_def np_where_nan_def map_arr_def where_map)

lemma kernel_exponential_eq:
  "np_asarray x = Inr a \<Longrightarrow> \<not> f_le lam (Fin 0) \<Longrightarrow>
   kernel_exponential x lam = Inr (a\<lparr>elems := map (\<lambda>v. f_exp (f_div (f_neg v) lam)) (elems a)\<rparr>)"
  by (simp add: kernel_exponential_def Let_def map_arr_def)

lemma kernel_gaussian_eq:
  "np_asarray x = Inr a \<Longrightarrow> \<not> f_le sigma (Fin 0) \<Longrightarrow>
   kernel_gaussian x sigma =
     Inr (a\<lparr>elems := map (\<lambda>v. f_exp (f_neg (f_square (f_div v sigma)))) (elems a)\<rparr>)"
  by (simp add: kernel_gaussian_def Let_def map_arr_def)

lemma kernel_exppower_eq:
  "np_asarray x = Inr a \<Longrightarrow> \<not> f_le lam (Fin 0) \<Longrightarrow> \<not> f_le q (Fin 0) \<Longrightarrow>
   kernel_exppower x lam q =
     Inr (a\<lparr>elems := map (\<lambda>v. f_exp (f_neg (f_pow (f_div v lam) q))) (elems a)\<rparr>)"
  by (simp add: kernel_exppower_def Let_def map_arr_def)

lemma kernel_powerlaw_eq:
  "np_asarray x = Inr a \<Longrightarrow> \<not> f_le alpha (Fin 0) \<Longrightarrow> \<not> f_le p (Fin 0) \<Longrightarrow>
   kernel_powerlaw x alpha p =
     Inr (a\<lparr>elems := map (\<lambda>v. if f_gt (f_add (Fin 1) (f_div v alpha)) (Fin 0)
                               then f_pow (f_add (Fin 1) (f_div v alpha)) (f_neg p) else NaN)
                         (elems a)\<rparr>)"
  by (simp add: kernel_powerlaw_def Let_def np_where_nan_def map_arr_def where_map)

lemma masked_divide:
  "map (\<lambda>(ci, yi). if f_gt ci (Fin 0) then yi else NaN)
     (zip (map d xs)
        (map (\<lambda>(di, o_i). if f_ne di (Fin 0) then f_div (Fin 1) di else o_i)
           (zip (map d xs) (map mem [n..<n + length xs]))))
   = map (\<lambda>v. if f_gt (d v) (Fin 0) then f_div (Fin 1) (d v) else NaN) xs"
proof (induction xs arbitrary: n)
  case Nil
  show ?case by simp
next
  case (Cons v vs)
  have pos: "f_gt (d v) (Fin 0) \<Longrightarrow> f_ne (d v) (Fin 0)"
    by (cases "d v") (auto simp: f_gt_def f_ne_def)
  have "n < n + length (v # vs)" by simp
  then have "[n..<n + length (v # vs)] = n # [Suc n..<n + length (v # vs)]"
    by (rule upt_conv_Cons)
  moreover have "n + length (v # vs) = Suc n + length vs" by simp
  ultimately have "[n..<n + length (v # vs)] = n # [Suc n..<Suc n + length vs]"
    by (simp only:)
  with Cons.IH [of "Suc n"] pos show ?case by simp
qed

lemma rh_quotient_fst:
  "fst (rh_quotient mem a alpha p) = map_arr (\<lambda>v. f_add (Fin 1) (f_pow (f_div v alpha) p)) a"
  by (simp add: rh_quotient_def Let_def map_arr_def comp_def)

lemma rh_quotient_snd_nth:
  assumes "i < length (elems a)"
  shows "elems (snd (rh_quotient mem a alpha p)) ! i =
     (let d = elems (fst (rh_quotient mem a alpha p)) ! i
      in if f_ne d (Fin 0) then f_div (Fin 1) d else mem i)"
  using assms by (simp add: rh_quotient_def Let_def)

lemma kernel_rectangular_hyperbola_eq:
  assumes "np_asarray x = Inr a" "\<not> f_le alpha (Fin 0)" "\<not> f_le p (Fin 0)"
  shows "kernel_rectangular_hyperbola mem x alpha p =
     Inr (a\<lparr>elems := map (\<lambda>v. let d = f_add (Fin 1) (f_pow (f_div v alpha) p)
                               in if f_gt d (Fin 0) then f_div (Fin 1) d else NaN) (elems a)\<rparr>)"
proof -
  let ?d = "\<lambda>v. f_add (Fin 1) (f_pow (f_div v alpha) p)"
  have "map (\<lambda>(ci, yi). if f_gt ci (Fin 0) then yi else NaN)
     (zip (map ?d (elems a))
        (map (\<lambda>(di, o_i). if f_ne di (Fin 0) then f_div (Fin 1) di else o_i)
           (zip (map ?d (elems a)) (map mem [0..<0 + length (elems a)]))))
   = map (\<lambda>v. if f_gt (?d v) (Fin 0) then f_div (Fin 1) (?d v) else NaN) (elems a)"
    by (rule masked_divide)
  then show ?thesis
    using assms
    by (simp add: kernel_rectangular_hyperbola_def rh_quotient_def Let_def np_where_nan_def
        map_arr_def np_divide_where_def np_empty_like_def comp_def)
qed

section \<open>The global parameter guard of the dispersal kernels\<close>

text \<open>
  Claim C1.  For each of the five dispersal kernels and every input that NumPy turns
  into an array \<open>a\<close>: when a required scale or shape parameter (\<open>lam\<close>; \<open>sigma\<close>;
  \<open>alpha\<close> or \<open>p\<close>; \<open>lam\<close> or \<open>q\<close>) compares \<open>\<le> 0\<close>, the kernel returns
  \<open>np.full_like(a, nan)\<close>, an array of the shape and size of \<open>a\<close> whose every element
  is NaN, whatever the values in \<open>a\<close> are.
\<close>

theorem kernels_guard_all_nan:
  assumes "np_asarray x = Inr a"
  shows "all_nan_like a (np_full_like a NaN)
       \<and> (f_le lam (Fin 0) \<longrightarrow> kernel_exponential x lam = Inr (np_full_like a NaN))
       \<and> (f_le sigma (Fin 0) \<longrightarrow> kernel_gaussian x sigma = Inr (np_full_like a NaN))
       \<and> (f_le alpha (Fin 0) \<or> f_le p (Fin 0) \<longrightarrow>
            kernel_powerlaw x alpha p = Inr (np_full_like a NaN)
          \<and> kernel_rectangular_hyperbola mem x alpha p = Inr (np_full_like a NaN))
       \<and> (f_le lam (Fin 0) \<or> f_le q (Fin 0) \<longrightarrow>
            kernel_exppower x lam q = Inr (np_full_like a NaN))"
  using full_nan_like_eq [OF assms]
  by (simp add: kernel_exponential_def kernel_gaussian_def kernel_powerlaw_def
      kernel_rectangular_hyperbola_def kernel_exppower_def all_nan_like_def list_all_iff)

theorem kernels_guard_all_nan_witness:
  "kernel_exponential xs3 (Fin 0) = Inr nan3
   \<and> kernel_gaussian xs3 (Fin (- 2)) = Inr nan3
   \<and> kernel_powerlaw xs3 (Fin 1) (Fin 0) = Inr nan3
   \<and> kernel_rectangular_hyperbola junk xs3 NInf (Fin 1) = Inr nan3
   \<and> kernel_exppower xs3 (Fin 1) (Fin (- 1)) = Inr nan3
   \<and> all_nan_like \<lparr>shape = [3], elems = [Fin 0, Fin (- 1), NaN]\<rparr> nan3"
  using kernels_guard_all_nan [OF xs3_asarray, of "Fin 0" "Fin (- 2)" "Fin 1" "Fin 0" junk "Fin (- 1)"]
    kernels_guard_all_nan [OF xs3_asarray, of "Fin 1" "Fin 1" "NInf" "Fin 1" junk "Fin (- 1)"]
  by (simp add: f_le_def nan3_def np_full_like_def)

section \<open>Shapes\<close>

lemma same_shape_upd [simp]: "same_shape a (Inr (a\<lparr>elems := map f (elems a)\<rparr>))"
  by (simp add: same_shape_def)

lemma same_shape_full [simp]: "same_shape a (Inr (np_full_like a v))"
  by (simp add: same_shape_def)

lemma shape_exponential: "np_asarray x = Inr a \<Longrightarrow> same_shape a (kernel_exponential x lam)"
  by (cases "f_le lam (Fin 0)")
     (simp_all add: kernel_exponential_eq, simp add: kernel_exponential_def full_nan_like_eq)

lemma shape_gaussian: "np_asarray x = Inr a \<Longrightarrow> same_shape a (kernel_gaussian x sigma)"
  by (cases "f_le sigma (Fin 0)")
     (simp_all add: kernel_gaussian_eq, simp add: kernel_gaussian_def full_nan_like_eq)

lemma shape_powerlaw: "np_asarray x = Inr a \<Longrightarrow> same_shape a (kernel_powerlaw x alpha p)"
  by (cases "f_le alpha (Fin 0) \<or> f_le p (Fin 0)")
     (simp_all add: kernel_powerlaw_eq, auto simp add: kernel_powerlaw_def full_nan_like_eq)

lemma shape_rectangular_hyperbola:
  "np_asarray x = Inr a \<Longrightarrow> same_shape a (kernel_rectangular_hyperbola mem x alpha p)"
  by (cases "f_le alpha (Fin 0) \<or> f_le p (Fin 0)")
     (simp_all add: kernel_rectangular_hyperbola_eq,
      auto simp add: kernel_rectangular_hyperbola_def full_nan_like_eq)

lemma shape_exppower: "np_asarray x = Inr a \<Longrightarrow> same_shape a (kernel_exppower x lam q)"
  by (cases "f_le lam (Fin 0) \<or> f_le q (Fin 0)")
     (simp_all add: kernel_exppower_eq, auto simp add: kernel_exppower_def full_nan_like_eq)

text \<open>
  Claim C5.  For each of the seven curve functions, every parameter set (whether or
  not it passes the guard) and every input that NumPy turns into an array \<open>a\<close>, the
  function returns an array with the shape of \<open>a\<close> and as many elements.
\<close>

theorem curves_preserve_shape:
  assumes "np_asarray x = Inr a"
  shows "same_shape a (power_law_decay x pa pp pb)
       \<and> same_shape a (log_growth x ga gb)
       \<and> same_shape a (kernel_exponential x lam)
       \<and> same_shape a (kernel_gaussian x sigma)
       \<and> same_shape a (kernel_powerlaw x alpha p)
       \<and> same_shape a (kernel_rectangular_hyperbola mem x alpha p)
       \<and> same_shape a (kernel_exppower x lam q)"
  using assms
  by (simp add: power_law_decay_eq log_growth_eq shape_exponential shape_gaussian
      shape_powerlaw shape_rectangular_hyperbola shape_exppower)

theorem curves_preserve_shape_witness:
  "same_shape arr22 (power_law_decay grid22 (Fin 1) (Fin 1) (Fin 0))
       \<and> same_shape arr22 (log_growth grid22 (Fin 1) (Fin 0))
       \<and> same_shape arr22 (kernel_exponential grid22 (Fin 1))
       \<and> same_shape arr22 (kernel_gaussian grid22 (Fin 0))
       \<and> same_shape arr22 (kernel_powerlaw grid22 (Fin 1) (Fin 2))
       \<and> same_shape arr22 (kernel_rectangular_hyperbola junk grid22 (Fin 1) (Fin 2))
       \<and> same_shape arr22 (kernel_exppower grid22 (Fin 1) (Fin 2))"
  using curves_preserve_shape [OF grid22_asarray] by simp

section \<open>NaN in the input\<close>

lemma is_nan_iff: "is_nan v \<longleftrightarrow> v = NaN"
  by (cases v) simp_all

lemma nan_propagates_map:
  "f NaN = NaN \<Longrightarrow> nan_propagates a (Inr (a\<lparr>elems := map f (elems a)\<rparr>))"
  by (simp add: nan_propagates_def is_nan_iff)

lemma f_gt_NaN [simp]: "\<not> f_gt NaN b" "\<not> f_gt b NaN"
  by (cases b; simp add: f_gt_def)+

lemma f_pow_NaN_base: "\<not> f_le q (Fin 0) \<Longrightarrow> f_pow NaN q = NaN"
  by (cases q) (auto simp add: f_le_def)

lemma nan_power_law_decay:
  "np_asarray x = Inr a \<Longrightarrow> nan_propagates a (power_law_decay x pa pp pb)"
  by (simp add: power_law_decay_eq nan_propagates_map)

lemma nan_log_growth:
  "np_asarray x = Inr a \<Longrightarrow> nan_propagates a (log_growth x ga gb)"
  by (simp add: log_growth_eq nan_propagates_map)

lemma nan_exponential:
  "np_asarray x = Inr a \<Longrightarrow> \<not> f_le lam (Fin 0) \<Longrightarrow> nan_propagates a (kernel_exponential x lam)"
  by (simp add: kernel_exponential_eq nan_propagates_map)

lemma nan_gaussian:
  "np_asarray x = Inr a \<Longrightarrow> \<not> f_le sigma (Fin 0) \<Longrightarrow> nan_propagates a (kernel_gaussian x sigma)"
  by (simp add: kernel_gaussian_eq nan_propagates_map f_square_def)

lemma nan_powerlaw:
  "np_asarray x = Inr a \<Longrightarrow> \<not> f_le alpha (Fin 0) \<Longrightarrow> \<not> f_le p (Fin 0) \<Longrightarrow>
   nan_propagates a (kernel_powerlaw x alpha p)"
  by (simp add: kernel_powerlaw_eq nan_propagates_map)

lemma nan_rectangular_hyperbola:
  "np_asarray x = Inr a \<Longrightarrow> \<not> f_le alpha (Fin 0) \<Longrightarrow> \<not> f_le p (Fin 0) \<Longrightarrow>
   nan_propagates a (kernel_rectangular_hyperbola mem x alpha p)"
  by (simp add: kernel_rectangular_hyperbola_eq nan_propagates_map f_pow_NaN_base)

lemma nan_exppower:
  "np_asarray x = Inr a \<Longrightarrow> \<not> f_le lam (Fin 0) \<Longrightarrow> \<not> f_le q (Fin 0) \<Longrightarrow>
   nan_propagates a (kernel_exppower x lam q)"
  by (simp add: kernel_exppower_eq nan_propagates_map f_pow_NaN_base)

text \<open>
  Claim C9.  For each of the seven curve functions and every input that NumPy turns
  into an array \<open>a\<close>: when the global parameter guard of the function (if it has
  one) passes, the function returns an array, not an error, and that array is NaN at
  every position where \<open>a\<close> is NaN.
\<close>

theorem nan_inputs_propagate:
  assumes "np_asarray x = Inr a"
  shows "nan_propagates a (power_law_decay x pa pp pb)
       \<and> nan_propagates a (log_growth x ga gb)
       \<and> (\<not> f_le lam (Fin 0) \<longrightarrow> nan_propagates a (kernel_exponential x lam))
       \<and> (\<not> f_le sigma (Fin 0) \<longrightarrow> nan_propagates a (kernel_gaussian x sigma))
       \<and> (\<not> (f_le alpha (Fin 0) \<or> f_le p (Fin 0)) \<longrightarrow>
            nan_propagates a (kernel_powerlaw x alpha p)
          \<and> nan_propagates a (kernel_rectangular_hyperbola mem x alpha p))
       \<and> (\<not> (f_le lam (Fin 0) \<or> f_le q (Fin 0)) \<longrightarrow>
            nan_propagates a (kernel_exppower x lam q))"
  using assms
  by (simp add: nan_power_law_decay nan_log_growth nan_exponential nan_gaussian nan_powerlaw
      nan_rectangular_hyperbola nan_exppower)

theorem nan_inputs_propagate_witness:
  "nan_propagates arr22 (power_law_decay grid22 (Fin 1) (Fin 1) (Fin 0))
     \<and> nan_propagates arr22 (log_growth grid22 (Fin 1) (Fin 0))
     \<and> \<not> f_le (Fin 2) (Fin 0) \<and> nan_propagates arr22 (kernel_exponential grid22 (Fin 2))
     \<and> nan_propagates arr22 (kernel_gaussian grid22 (Fin 2))
     \<and> nan_propagates arr22 (kernel_powerlaw grid22 (Fin 2) (Fin 2))
     \<and> nan_propagates arr22 (kernel_rectangular_hyperbola junk grid22 (Fin 2) (Fin 2))
     \<and> nan_propagates arr22 (kernel_exppower grid22 (Fin 2) (Fin 2))
     \<and> is_nan (elems arr22 ! 3)"
  using nan_inputs_propagate [OF grid22_asarray, of _ _ _ _ _ "Fin 2" "Fin 2" "Fin 2" "Fin 2" _ "Fin 2"]
  by (simp add: f_le_def arr22_def)

section \<open>The rectangular hyperbola and its zero denominator\<close>

lemma f_gt_imp_not_le: "f_gt v (Fin 0) \<Longrightarrow> \<not> f_le v (Fin 0)"
  by (cases v) (auto simp add: f_gt_def f_le_def)

lemma f_gt_imp_ne: "f_gt d (Fin 0) \<Longrightarrow> f_ne d (Fin 0)"
  by (cases d) (auto simp add: f_gt_def f_ne_def)

text \<open>
  Claim C4.  For \<open>kernel_rectangular_hyperbola\<close> with \<open>alpha > 0\<close> and \<open>p > 0\<close>,
  at every position \<open>i\<close> of the input: the quotient \<open>1 / denom\<close> is written only
  where the denominator \<open>1 + (r / alpha) ** p\<close> is not zero (elsewhere the output
  buffer keeps its uninitialised content \<open>mem i\<close>), and the returned array holds the
  quotient where the denominator is \<open>> 0\<close> and NaN wherever it is not, zero
  included: never an infinity and never the uninitialised content.
\<close>

theorem rectangular_hyperbola_zero_denominator:
  assumes "np_asarray x = Inr a" and "f_gt alpha (Fin 0)" and "f_gt p (Fin 0)"
    and "i < length (elems a)"
  shows "\<exists>y. kernel_rectangular_hyperbola mem x alpha p = Inr y
           \<and> length (elems y) = length (elems a)
           \<and> (let (denom, quot) = rh_quotient mem a alpha p; d = elems denom ! i
              in elems quot ! i = (if f_ne d (Fin 0) then f_div (Fin 1) d else mem i)
               \<and> elems y ! i = (if f_gt d (Fin 0) then f_div (Fin 1) d else NaN)
               \<and> (\<not> f_gt d (Fin 0) \<longrightarrow> is_nan (elems y ! i)))"
proof -
  let ?d = "\<lambda>v. f_add (Fin 1) (f_pow (f_div v alpha) p)"
  let ?y = "a\<lparr>elems := map (\<lambda>v. let d = ?d v
                               in if f_gt d (Fin 0) then f_div (Fin 1) d else NaN) (elems a)\<rparr>"
  have k: "kernel_rectangular_hyperbola mem x alpha p = Inr ?y"
    using assms(1-3) by (simp add: kernel_rectangular_hyperbola_eq f_gt_imp_not_le)
  have d: "elems (fst (rh_quotient mem a alpha p)) ! i = ?d (elems a ! i)"
    using assms(4) by (simp add: rh_quotient_fst)
  have q: "elems (snd (rh_quotient mem a alpha p)) ! i =
      (if f_ne (?d (elems a ! i)) (Fin 0) then f_div (Fin 1) (?d (elems a ! i)) else mem i)"
    using rh_quotient_snd_nth [OF assms(4), of mem alpha p] d by (simp add: Let_def)
  show ?thesis
    using assms(4) k d q by (simp add: Let_def split_beta)
qed

lemma rh_in_asarray: "np_asarray rh_in = Inr \<lparr>shape = [2], elems = [Fin (- 2), Fin 0]\<rparr>"
  by (simp add: rh_in_def np_asarray_def)

theorem rectangular_hyperbola_zero_denominator_witness:
  "f_gt (Fin 2) (Fin 0) \<and> f_gt (Fin 1) (Fin 0)
   \<and> kernel_rectangular_hyperbola junk rh_in (Fin 2) (Fin 1)
       = Inr \<lparr>shape = [2], elems = [NaN, Fin 1]\<rparr>
   \<and> elems (fst (rh_quotient junk \<lparr>shape = [2], elems = [Fin (- 2), Fin 0]\<rparr> (Fin 2) (Fin 1))) ! 0
       = Fin 0
   \<and> elems (snd (rh_quotient junk \<lparr>shape = [2], elems = [Fin (- 2), Fin 0]\<rparr> (Fin 2) (Fin 1))) ! 0
       = PInf"
  using rectangular_hyperbola_zero_denominator [OF rh_in_asarray, of "Fin 2" "Fin 1" 0 junk]
  by (simp add: kernel_rectangular_hyperbola_def rh_in_asarray f_le_def rh_quotient_def Let_def
      is_integral_def is_odd_integral_def f_ne_def f_gt_def junk_def)

section \<open>The exponential-power kernel at \<open>q = 2\<close>\<close>

lemma close_to_refl: "0 \<le> tol \<Longrightarrow> close_to tol v v"
  by (cases v) simp_all

lemma f_pow_two: "f_pow v (Fin 2) = f_square v"
proof (cases v)
  case (Fin x)
  have two: "is_integral 2" "\<not> is_odd_integral 2"
    by (simp_all add: is_integral_def is_odd_integral_def)
  have "x \<noteq> 0 \<Longrightarrow> \<bar>x\<bar> powr 2 = x * x"
    by (simp add: power2_eq_square)
  moreover have "0 < x \<Longrightarrow> x powr 2 = x * x"
    by (simp add: power2_eq_square)
  ultimately show ?thesis
    using Fin two by (simp add: f_square_def)
qed (simp_all add: f_square_def is_odd_integral_def is_integral_def)

lemma exppower_two_eq_gaussian:
  "kernel_exppower r L (Fin 2) = kernel_gaussian r L"
  by (simp add: kernel_exppower_def kernel_gaussian_def f_pow_two f_le_def del: f_pow.simps)

text \<open>
  Claim C6.  For every scale \<open>L > 0\<close>, every input that NumPy turns into an array
  and every tolerance \<open>tol \<ge> 0\<close>: \<open>kernel_exppower(r, lam=L, q=2)\<close> and
  \<open>kernel_gaussian(r, sigma=L)\<close> have the same shape and agree within \<open>tol\<close> at
  every position.  (In this model the two are equal: the difference in the code can
  only come from the rounding of \<open>np.power(v, 2)\<close> against \<open>np.square(v)\<close>.)
\<close>

theorem exppower_q2_matches_gaussian:
  assumes "f_gt L (Fin 0)" and "np_asarray r = Inr a" and "0 \<le> tol"
  shows "arrays_close tol (kernel_exppower r L (Fin 2)) (kernel_gaussian r L)"
proof -
  have g: "kernel_gaussian r L =
      Inr (a\<lparr>elems := map (\<lambda>v. f_exp (f_neg (f_square (f_div v L)))) (elems a)\<rparr>)"
    using assms(1,2) by (simp add: kernel_gaussian_eq f_gt_imp_not_le)
  have "list_all2 (close_to tol) ys ys" for ys
    using assms(3) by (simp add: list_all2_same close_to_refl)
  then show ?thesis
    by (simp add: exppower_two_eq_gaussian g arrays_close_def)
qed

theorem exppower_q2_matches_gaussian_witness:
  "f_gt (Fin 2) (Fin 0) \<and> (0::real) \<le> 0
   \<and> arrays_close 0 (kernel_exppower rh_in (Fin 2) (Fin 2)) (kernel_gaussian rh_in (Fin 2))
   \<and> kernel_gaussian rh_in (Fin 2) = Inr \<lparr>shape = [2], elems = [Fin (exp (- 1)), Fin 1]\<rparr>"
  using exppower_q2_matches_gaussian [OF _ rh_in_asarray, of "Fin 2" 0]
  by (simp add: f_gt_def kernel_gaussian_def rh_in_asarray f_le_def Let_def f_square_def
      map_arr_def)

section \<open>The domain of power-law decay and logarithmic growth\<close>

lemma f_gt_Fin [simp]: "f_gt (Fin u) (Fin w) \<longleftrightarrow> w < u"
  by (simp add: f_gt_def)

text \<open>
  Claim C2, as amended.  For \<open>power_law_decay\<close> and \<open>log_growth\<close>, at every
  position \<open>i\<close> of the input: the output is NaN whenever \<open>x + b > 0\<close> does not hold
  there, which covers \<open>x + b \<le> 0\<close> and a NaN in the input.  For finite \<open>x\<close>, \<open>a\<close>,
  \<open>p\<close>, \<open>b\<close> whose sum \<open>x + b\<close> stays in the range of a double, \<open>x + b > 0\<close> is the
  comparison of the real numbers, and where it holds the output is the finite number
  \<open>a * (x + b) ** (-p)\<close>, respectively \<open>a * ln(x + b)\<close>, provided neither the
  power nor the product leaves the range of a double.
\<close>

theorem decay_growth_domain:
  assumes "np_asarray x = Inr xa" and "i < length (elems xa)"
  shows "\<exists>y z. power_law_decay x a p b = Inr y \<and> log_growth x a b = Inr z
      \<and> (\<not> f_gt (f_add (elems xa ! i) b) (Fin 0) \<longrightarrow> is_nan (elems y ! i) \<and> is_nan (elems z ! i))
      \<and> (elems xa ! i = Fin v \<and> a = Fin a' \<and> p = Fin p' \<and> b = Fin b' \<and> \<bar>v + b'\<bar> \<le> MAXF \<longrightarrow>
            (f_gt (f_add (elems xa ! i) b) (Fin 0) \<longleftrightarrow> 0 < v + b')
          \<and> (0 < v + b' \<and> (v + b') powr (- p') \<le> MAXF \<and> \<bar>a' * (v + b') powr (- p')\<bar> \<le> MAXF \<longrightarrow>
                elems y ! i = Fin (a' * (v + b') powr (- p')))
          \<and> (0 < v + b' \<and> \<bar>a' * ln (v + b')\<bar> \<le> MAXF \<longrightarrow>
                elems z ! i = Fin (a' * ln (v + b'))))"
proof -
  have pw: "0 < d \<Longrightarrow> d powr (- p') \<le> MAXF \<Longrightarrow> f_pow (Fin d) (Fin (- p')) = Fin (d powr (- p'))" for d
  proof -
    assume d: "0 < d" and le: "d powr (- p') \<le> MAXF"
    have "0 \<le> d powr (- p')" by simp
    then have "\<bar>d powr (- p')\<bar> \<le> MAXF" using le by simp
    then have "rnd (d powr (- p')) = Fin (d powr (- p'))" by (rule rnd_in_range)
    then show ?thesis using d by simp
  qed
  show ?thesis
    using assms pw [of "v + b'"]
    by (auto simp add: power_law_decay_eq log_growth_eq rnd_in_range)
qed

lemma pm1_asarray: "np_asarray pm1 = Inr \<lparr>shape = [3], elems = [Fin (- 1), Fin 1, NaN]\<rparr>"
  by (simp add: pm1_def np_asarray_def)

theorem decay_growth_domain_witness:
  "power_law_decay pm1 (Fin 1) (Fin 1) (Fin 0) = Inr \<lparr>shape = [3], elems = [NaN, Fin 1, NaN]\<rparr>
   \<and> log_growth pm1 (Fin 1) (Fin 0) = Inr \<lparr>shape = [3], elems = [NaN, Fin 0, NaN]\<rparr>
   \<and> \<not> f_gt (f_add (Fin (- 1)) (Fin 0)) (Fin 0)
   \<and> f_gt (f_add (Fin 1) (Fin 0)) (Fin 0)
   \<and> \<bar>1 + 0\<bar> \<le> MAXF \<and> (1 + 0) powr (- 1) \<le> MAXF"
  using decay_growth_domain [OF pm1_asarray, of 0 "Fin 1" "Fin 1" "Fin 0" "- 1" 1 1 0]
    decay_growth_domain [OF pm1_asarray, of 1 "Fin 1" "Fin 1" "Fin 0" 1 1 1 0]
  by (simp add: power_law_decay_eq [OF pm1_asarray] log_growth_eq [OF pm1_asarray])

text \<open>
  The claim as stated fails: a NaN input gives a NaN output although \<open>x + b \<le> 0\<close> is
  false there; at the finite input \<open>2 ** -600\<close> with \<open>p = 2\<close> the power overflows,
  so the output is infinite for \<open>a = 1\<close> and NaN for \<open>a = 0\<close> although \<open>x + b > 0\<close>;
  and an infinite input gives an infinite logarithm.
\<close>

theorem decay_growth_domain_counterexample:
  "power_law_decay (Seq [Elem (PFloat NaN)]) (Fin 1) (Fin 1) (Fin 0)
      = Inr \<lparr>shape = [1], elems = [NaN]\<rparr>
   \<and> log_growth (Seq [Elem (PFloat NaN)]) (Fin 1) (Fin 0)
      = Inr \<lparr>shape = [1], elems = [NaN]\<rparr>
   \<and> \<not> f_le (f_add NaN (Fin 0)) (Fin 0)
   \<and> power_law_decay (Seq [Elem (PFloat (Fin tiny))]) (Fin 1) (Fin 2) (Fin 0)
      = Inr \<lparr>shape = [1], elems = [PInf]\<rparr>
   \<and> power_law_decay (Seq [Elem (PFloat (Fin tiny))]) (Fin 0) (Fin 2) (Fin 0)
      = Inr \<lparr>shape = [1], elems = [NaN]\<rparr>
   \<and> f_gt (f_add (Fin tiny) (Fin 0)) (Fin 0)
   \<and> log_growth (Seq [Elem (PFloat PInf)]) (Fin 1) (Fin 0)
      = Inr \<lparr>shape = [1], elems = [PInf]\<rparr>
   \<and> f_gt (f_add PInf (Fin 0)) (Fin 0)"
proof -
  have t: "0 < tiny" "\<bar>tiny\<bar> \<le> 2 ^ 53" by (simp_all add: tiny_def)
  have "tiny powr (- 2) = 2 ^ 1200"
    by (simp add: tiny_def powr_minus power_divide)
  moreover have "MAXF < 2 ^ 1200" by (simp add: MAXF_def)
  ultimately have big: "rnd (tiny powr (- 2)) = PInf" by (simp add: rnd_def)
  have a: "np_asarray (Seq [Elem (PFloat v)]) = Inr \<lparr>shape = [1], elems = [v]\<rparr>" for v
    by (simp add: np_asarray_def)
  show ?thesis
    using t big
    by (simp add: power_law_decay_eq [OF a] log_growth_eq [OF a] f_le_def f_gt_def signed_inf_def)
qed

section \<open>Coercion of the bound parameters\<close>

lemma py_float_error: "py_float w = Inl e \<Longrightarrow> \<exists>c. e = Builtin c"
  by (cases w) (auto simp add: py_float.simps(2) split: if_splits option.splits)

lemma value_of_error: "value_of v = Inl e \<Longrightarrow> value_error v e"
proof -
  assume h: "value_of v = Inl e"
  show ?thesis
  proof (cases "py_float (getattr_value v)")
    case (Inr f)
    with h show ?thesis by (simp add: value_of_def)
  next
    case (Inl e0)
    then obtain c where "e0 = Builtin c" using py_float_error by blast
    with h Inl show ?thesis
      by (cases c) (auto simp add: value_of_def value_error_def)
  qed
qed

lemma value_of_accepts: "float_accepts v \<longleftrightarrow> (\<exists>f. value_of v = Inr f)"
proof (cases "py_float (getattr_value v)")
  case (Inr f)
  then show ?thesis by (simp add: float_accepts_def value_of_def)
next
  case (Inl e0)
  then obtain c where "e0 = Builtin c" using py_float_error by blast
  with Inl show ?thesis
    by (cases c) (auto simp add: float_accepts_def value_of_def)
qed

lemma first_error_Some:
  "first_error ps = Some (k, v, e) \<Longrightarrow> (k, v) \<in> set ps \<and> value_of v = Inl e \<and> coerce ps = Inl e"
proof (induction ps)
  case Nil
  then show ?case by simp
next
  case (Cons kv ps)
  obtain k0 v0 where kv: "kv = (k0, v0)" by (cases kv)
  show ?case
  proof (cases "value_of v0")
    case (Inl e0)
    with Cons.prems kv show ?thesis by auto
  next
    case (Inr f)
    with Cons.prems kv have "first_error ps = Some (k, v, e)" by simp
    from Cons.IH [OF this] kv Inr show ?thesis by auto
  qed
qed

lemma first_error_None:
  "first_error ps = None \<longleftrightarrow> (\<forall>kv \<in> set ps. float_accepts (snd kv))"
proof (induction ps)
  case Nil
  show ?case by simp
next
  case (Cons kv ps)
  obtain k0 v0 where kv: "kv = (k0, v0)" by (cases kv)
  show ?case
    using Cons.IH kv value_of_accepts [of v0]
    by (cases "value_of v0") auto
qed

lemma first_error_None_coerce: "first_error ps = None \<Longrightarrow> \<exists>kvs. coerce ps = Inr kvs"
proof (induction ps)
  case Nil
  show ?case by simp
next
  case (Cons kv ps)
  obtain k0 v0 where kv: "kv = (k0, v0)" by (cases kv)
  show ?case
  proof (cases "value_of v0")
    case (Inl e0)
    with Cons.prems kv show ?thesis by simp
  next
    case (Inr f)
    with Cons.prems kv have "first_error ps = None" by simp
    from Cons.IH [OF this] kv Inr show ?thesis by auto
  qed
qed

lemma coerce_fst: "coerce ps = Inr kvs \<Longrightarrow> map fst kvs = map fst ps"
proof (induction ps arbitrary: kvs)
  case Nil
  then show ?case by simp
next
  case (Cons kv ps)
  obtain k v where kv: "kv = (k, v)" by (cases kv)
  from Cons.prems kv obtain f r where "value_of v = Inr f" "coerce ps = Inr r" "kvs = (k, f) # r"
    by (auto simp add: bind_err_def split: sum.splits)
  with Cons.IH kv show ?case by simp
qed

lemma params_items_coerce:
  "0 \<le> precision \<Longrightarrow> precision < 2 ^ 31 \<Longrightarrow>
   params_items precision ps =
     (case coerce ps of Inl e \<Rightarrow> Inl e
      | Inr kvs \<Rightarrow> Inr (map (render_param (nat precision)) kvs))"
proof (induction ps)
  case Nil
  then show ?case by simp
next
  case (Cons kv ps)
  obtain k v where kv: "kv = (k, v)" by (cases kv)
  show ?case
    using Cons kv
    by (cases "value_of v"; cases "coerce ps") (simp_all add: format_f_def render_param_def)
qed

lemma params_str_coerce:
  "0 \<le> precision \<Longrightarrow> precision < 2 ^ 31 \<Longrightarrow>
   params_str b precision sep =
     (case coerce (parameters b) of Inl e \<Rightarrow> Inl e
      | Inr kvs \<Rightarrow> Inr (join sep (map (render_param (nat precision)) kvs)))"
  by (simp add: params_str_def params_items_coerce split: sum.splits)

lemma call_coerce_fail: "coerce (parameters b) = Inl e \<Longrightarrow> call mem b x = Inl e"
  by (simp add: call_def)

lemma curve_asarray_fail:
  assumes "np_asarray x = Inl e"
  shows "power_law_decay x pa pp pb = Inl e" "log_growth x ga gb = Inl e"
    "kernel_exponential x lam = Inl e" "kernel_gaussian x sigma = Inl e"
    "kernel_powerlaw x alpha p = Inl e" "kernel_rectangular_hyperbola mem x alpha p = Inl e"
    "kernel_exppower x lam q = Inl e"
  using assms
  by (simp_all add: power_law_decay_def log_growth_def kernel_exponential_def kernel_gaussian_def
      kernel_powerlaw_def kernel_rectangular_hyperbola_def kernel_exppower_def full_nan_like_def)

lemma call_asarray_fail:
  assumes "coerce (parameters b) = Inr kvs" and "np_asarray x = Inl e"
  shows "call mem b x = Inl e"
proof (cases b)
  case (PowerLawDecay a p c)
  with assms show ?thesis
    by (auto simp add: call_def kwarg_def curve_asarray_fail bind_err_def split: sum.splits)
next
  case (LogGrowth a c)
  with assms show ?thesis
    by (auto simp add: call_def kwarg_def curve_asarray_fail bind_err_def split: sum.splits)
next
  case (ExponentialKernel lam)
  with assms show ?thesis
    by (auto simp add: call_def kwarg_def curve_asarray_fail bind_err_def split: sum.splits)
next
  case (GaussianKernel sigma)
  with assms show ?thesis
    by (auto simp add: call_def kwarg_def curve_asarray_fail bind_err_def split: sum.splits)
next
  case (PowerLawKernel alpha p)
  with assms show ?thesis
    by (auto simp add: call_def kwarg_def curve_asarray_fail bind_err_def split: sum.splits)
next
  case (ExpPowerKernel lam q)
  with assms show ?thesis
    by (auto simp add: call_def kwarg_def curve_asarray_fail bind_err_def split: sum.splits)
next
  case (RectangularHyperbolaKernel alpha p)
  with assms show ?thesis
    by (auto simp add: call_def kwarg_def curve_asarray_fail bind_err_def split: sum.splits)
qed

lemma call_ok:
  assumes "coerce (parameters b) = Inr kvs" and "np_asarray x = Inr a"
  shows "same_shape a (call mem b x)"
proof (cases b)
  case (PowerLawDecay a' p c)
  with assms show ?thesis
    by (auto simp add: call_def kwarg_def power_law_decay_eq bind_err_def split: sum.splits)
next
  case (LogGrowth a' c)
  with assms show ?thesis
    by (auto simp add: call_def kwarg_def log_growth_eq bind_err_def split: sum.splits)
next
  case (ExponentialKernel lam)
  with assms show ?thesis
    by (auto simp add: call_def kwarg_def shape_exponential bind_err_def split: sum.splits)
next
  case (GaussianKernel sigma)
  with assms show ?thesis
    by (auto simp add: call_def kwarg_def shape_gaussian bind_err_def split: sum.splits)
next
  case (PowerLawKernel alpha p)
  with assms show ?thesis
    by (auto simp add: call_def kwarg_def shape_powerlaw bind_err_def split: sum.splits)
next
  case (ExpPowerKernel lam q)
  with assms show ?thesis
    by (auto simp add: call_def kwarg_def shape_exppower bind_err_def split: sum.splits)
next
  case (RectangularHyperbolaKernel alpha p)
  with assms show ?thesis
    by (auto simp add: call_def kwarg_def shape_rectangular_hyperbola bind_err_def
        split: sum.splits)
qed

lemma first_error_call:
  "first_error (parameters b) = Some (k, v, e) \<Longrightarrow> call mem b x = Inl e"
  using first_error_Some call_coerce_fail by blast

section \<open>\<open>params_str\<close>\<close>

lemma digit_char_is_digit: "d < 10 \<Longrightarrow> is_digit (digit_char d)"
proof -
  assume "d < 10"
  then have "d \<in> {0, 1, 2, 3, 4, 5, 6, 7, 8, 9}" by auto
  then show ?thesis by (auto simp add: is_digit_def digit_char_def)
qed

lemma str_nat_digits: "list_all is_digit (str_nat m)"
proof (induction m rule: str_nat.induct)
  case (1 n)
  show ?case
  proof (cases "n < 10")
    case True
    then show ?thesis by (subst str_nat.simps) (simp add: digit_char_is_digit)
  next
    case False
    have "n mod 10 < 10" by simp
    then have "is_digit (digit_char (n mod 10))" by (rule digit_char_is_digit)
    with 1 False show ?thesis by (subst str_nat.simps) simp
  qed
qed

lemma str_nat_length: "m < 10 ^ Suc k \<Longrightarrow> length (str_nat m) \<le> Suc k"
proof (induction k arbitrary: m)
  case 0
  then show ?case by (subst str_nat.simps) simp
next
  case (Suc k)
  show ?case
  proof (cases "m < 10")
    case True
    then show ?thesis by (subst str_nat.simps) simp
  next
    case False
    from Suc.prems have "m div 10 < 10 ^ Suc k" by (simp add: less_mult_imp_div_less)
    from Suc.IH [OF this] False show ?thesis by (subst str_nat.simps) simp
  qed
qed

lemma zfill_frac:
  assumes "0 < n" "m < 10 ^ n"
  shows "length (zfill n (str_nat m)) = n" "list_all is_digit (zfill n (str_nat m))"
proof -
  from assms obtain k where "n = Suc k" by (cases n) auto
  with assms(2) have "length (str_nat m) \<le> n" using str_nat_length by simp
  then show "length (zfill n (str_nat m)) = n" by (simp add: zfill_def)
  have "is_digit (CHR ''0'')" by (simp add: is_digit_def)
  then show "list_all is_digit (zfill n (str_nat m))"
    using str_nat_digits [of m] by (auto simp add: zfill_def list_all_iff)
qed

lemma is_digit_not_point: "is_digit c \<Longrightarrow> c \<noteq> CHR ''.''"
  by (auto simp add: is_digit_def)

lemma has_decimals_point:
  assumes "0 < n" "length fr = n" "list_all is_digit fr"
  shows "has_decimals n (pre @ CHR ''.'' # fr)"
  using assms by (simp add: has_decimals_def nth_append)

lemma format_fixed_decimals: "is_finite val \<Longrightarrow> has_decimals n (format_fixed n val)"
proof (cases val)
  case (Fin x)
  let ?scaled = "round_half_even (\<bar>x\<bar> * 10 ^ n)"
  let ?pre = "(if x < 0 then ''-'' else []) @ str_nat (?scaled div 10 ^ n)"
  show ?thesis
  proof (cases "n = 0")
    case True
    have "CHR ''.'' \<notin> set (str_nat m)" for m
      using str_nat_digits [of m] is_digit_not_point by (auto simp add: list_all_iff)
    then show ?thesis using Fin True by (simp add: has_decimals_def Let_def)
  next
    case False
    then have n: "0 < n" by simp
    have "?scaled mod 10 ^ n < 10 ^ n" by simp
    from zfill_frac [OF n this]
    have "has_decimals n (?pre @ CHR ''.'' # zfill n (str_nat (?scaled mod 10 ^ n)))"
      by (intro has_decimals_point [OF n])
    then show ?thesis using Fin False by (simp add: Let_def)
  qed
qed simp_all

lemma format_fixed_special:
  "\<not> is_finite val \<Longrightarrow> format_fixed n val \<in> {''nan'', ''inf'', ''-inf''}"
  by (cases val) simp_all

text \<open>
  Claim C7, as amended.  When every bound parameter converts to a float and
  \<open>0 \<le> precision < 2 ** 31\<close>, \<open>params_str(precision, sep)\<close> is the strings
  \<open>name=value\<close> of the parameters, in the order in which the dataclass declares
  them, joined by \<open>sep\<close>; a finite value is written with exactly \<open>precision\<close> digits
  after the point (and without a point for precision 0), a NaN or an infinity as
  \<open>nan\<close>, \<open>inf\<close> or \<open>-inf\<close>.  An \<open>ExponentialKernel\<close> bound to \<open>lam=2.5\<close> gives
  \<open>"lam=2.50"\<close> with the defaults \<open>precision=2\<close> and \<open>sep=", "\<close>.
\<close>

theorem params_str_renders:
  assumes "coerce (parameters b) = Inr kvs" and "0 \<le> precision" and "precision < 2 ^ 31"
  shows "params_str b precision sep = Inr (join sep (map (render_param (nat precision)) kvs))
       \<and> map fst kvs = map fst (parameters b)
       \<and> (\<forall>kv \<in> set kvs.
             if is_finite (snd kv)
             then has_decimals (nat precision) (format_fixed (nat precision) (snd kv))
             else format_fixed (nat precision) (snd kv) \<in> {''nan'', ''inf'', ''-inf''})
       \<and> params_str (ExponentialKernel (PFloat (Fin (5 / 2)))) 2 '', '' = Inr ''lam=2.50''"
proof -
  have ex: "params_str (ExponentialKernel (PFloat (Fin (5 / 2)))) 2 '', '' = Inr ''lam=2.50''"
    by (simp add: params_str_def value_of_def format_f_def round_half_even_def zfill_def
        digit_char_def str_nat.simps)
  have str: "params_str b precision sep = Inr (join sep (map (render_param (nat precision)) kvs))"
    using assms by (simp add: params_str_coerce)
  have ord: "map fst kvs = map fst (parameters b)"
    using assms(1) by (rule coerce_fst)
  have dec: "if is_finite w then has_decimals n (format_fixed n w)
             else format_fixed n w \<in> {''nan'', ''inf'', ''-inf''}" for w n
    using format_fixed_decimals [of w n] format_fixed_special [of w n] by simp
  from ex str ord dec show ?thesis by blast
qed

theorem params_str_renders_witness:
  "coerce (parameters decay_widgets) = Inr [(''a'', Fin (3 / 2)), (''p'', Fin 1), (''b'', Fin (- 1 / 8))]
   \<and> params_str decay_widgets 2 ''; '' = Inr ''a=1.50; p=1.00; b=-0.12''
   \<and> params_str decay_widgets 0 '', '' = Inr ''a=2, p=1, b=-0''
   \<and> has_decimals 2 ''-0.12''"
  using params_str_renders [of decay_widgets "[(''a'', Fin (3 / 2)), (''p'', Fin 1), (''b'', Fin (- 1 / 8))]" 2 "''; ''"]
    params_str_renders [of decay_widgets "[(''a'', Fin (3 / 2)), (''p'', Fin 1), (''b'', Fin (- 1 / 8))]" 0 "'', ''"]
  by (simp add: decay_widgets_def value_of_def render_param_def round_half_even_def zfill_def
      digit_char_def str_nat.simps has_decimals_def is_digit_def)

text \<open>
  The claim as stated fails: an infinite parameter is written \<open>inf\<close>, with no decimal
  digit at all, and a precision that is negative or beyond the largest C \<open>int\<close>
  raises \<open>ValueError\<close> instead of rendering.
\<close>

theorem params_str_renders_counterexample:
  "params_str (ExponentialKernel (PFloat PInf)) 2 '', '' = Inr ''lam=inf''
   \<and> \<not> has_decimals 2 ''inf''
   \<and> params_str (ExponentialKernel (PFloat (Fin (5 / 2)))) (- 1) '', '' = Inl (Builtin ValueErrorC)
   \<and> params_str (ExponentialKernel (PFloat (Fin (5 / 2)))) (2 ^ 31) '', '' = Inl (Builtin ValueErrorC)"
  by (simp add: params_str_def value_of_def format_f_def has_decimals_def)

section \<open>\<open>math_str\<close>\<close>

text \<open>
  Claim C8.  Two instances of the same dataclass have the same \<open>math_str()\<close>,
  whatever values they bind: the string is the class attribute \<open>MATH_TEMPLATE\<close>, a
  constant of the class written with the names of the variables, and no bound value
  enters it (an instance that binds \<open>None\<close> everywhere yields the same string).
\<close>

theorem math_str_fixed_per_variant:
  "class_name b = class_name c \<Longrightarrow> math_str b = math_str c"
  by (cases b; cases c) (simp_all add: math_str_def)

theorem math_str_fixed_per_variant_witness:
  "class_name (GaussianKernel (PFloat (Fin 2))) = class_name (GaussianKernel PNone)
   \<and> math_str (GaussianKernel (PFloat (Fin 2))) = math_str (GaussianKernel PNone)"
  using math_str_fixed_per_variant [of "GaussianKernel (PFloat (Fin 2))" "GaussianKernel PNone"]
  by simp

section \<open>Conversion failures of \<open>__call__\<close>\<close>

text \<open>
  Claim C3, as amended.  For every bound curve \<open>b\<close> and input \<open>x\<close>, the call raises
  exactly when \<open>float\<close> rejects a bound parameter (the parameter itself, or its
  \<open>value\<close> attribute when it has one) or \<open>np.asarray(x, dtype=float)\<close> raises.
  When \<open>float\<close> rejects a parameter, the call raises the error of the first such
  parameter in declared order, whatever the input is: the \<open>TypeError\<close> of \<open>_value\<close>
  that names the type of that parameter where \<open>float\<close> raised \<open>TypeError\<close> or
  \<open>ValueError\<close>, and the \<open>OverflowError\<close> of \<open>float\<close> itself for an \<open>int\<close> too
  large.  When every parameter converts and \<open>np.asarray\<close> raises, the call raises
  that error of NumPy.  When both convert, the call returns an array of the shape of
  the converted input.
\<close>

theorem evaluate_conversion_errors:
  "(first_error (parameters b) = None \<longleftrightarrow> (\<forall>kv \<in> set (parameters b). float_accepts (snd kv)))
   \<and> (first_error (parameters b) = Some (k, v, e) \<longrightarrow>
         (k, v) \<in> set (parameters b) \<and> \<not> float_accepts v \<and> value_error v e
         \<and> call mem b x = Inl e)
   \<and> (first_error (parameters b) = None \<and> np_asarray x = Inl e' \<longrightarrow> call mem b x = Inl e')
   \<and> (first_error (parameters b) = None \<and> np_asarray x = Inr a \<longrightarrow> same_shape a (call mem b x))"
proof (intro conjI impI)
  show "first_error (parameters b) = None \<longleftrightarrow> (\<forall>kv \<in> set (parameters b). float_accepts (snd kv))"
    by (rule first_error_None)
next
  assume h: "first_error (parameters b) = Some (k, v, e)"
  from first_error_Some [OF h] have m: "(k, v) \<in> set (parameters b)" and r: "value_of v = Inl e"
    by simp_all
  show "(k, v) \<in> set (parameters b)" by (rule m)
  show "\<not> float_accepts v" using r by (simp add: value_of_accepts)
  show "value_error v e" using r by (rule value_of_error)
  show "call mem b x = Inl e" using h by (rule first_error_call)
next
  assume "first_error (parameters b) = None \<and> np_asarray x = Inl e'"
  then show "call mem b x = Inl e'"
    using first_error_None_coerce call_asarray_fail by blast
next
  assume "first_error (parameters b) = None \<and> np_asarray x = Inr a"
  then show "same_shape a (call mem b x)"
    using first_error_None_coerce call_ok by blast
qed

lemma py_float_huge: "py_float (PInt huge) = Inl (Builtin OverflowErrorC)"
proof -
  have "MAXF + 2 ^ 970 \<le> (2::real) ^ 1200" by (simp add: MAXF_def)
  then show ?thesis by (simp add: py_float.simps(2) huge_def)
qed

theorem evaluate_conversion_errors_witness:
  "first_error (parameters (PowerLawKernel (PInt huge) PNone))
     = Some (''alpha'', PInt huge, Builtin OverflowErrorC)
   \<and> call junk (PowerLawKernel (PInt huge) PNone) xs3 = Inl (Builtin OverflowErrorC)
   \<and> first_error (parameters (PowerLawKernel (PFloat (Fin 1)) PNone))
     = Some (''p'', PNone, TypeError (cannot_convert PNone))
   \<and> call junk (PowerLawKernel (PFloat (Fin 1)) PNone) xs3
     = Inl (TypeError (''Cannot convert <class '' @ [CHR 0x27] @ ''NoneType'' @ [CHR 0x27]
             @ ''> to float; expected a number or an object with .value''))
   \<and> first_error (parameters (PowerLawKernel (PFloat (Fin 1)) (PInt 2))) = None
   \<and> np_asarray not_a_number = Inl (Builtin ValueErrorC)
   \<and> call junk (PowerLawKernel (PFloat (Fin 1)) (PInt 2)) not_a_number = Inl (Builtin ValueErrorC)
   \<and> same_shape \<lparr>shape = [3], elems = [Fin 0, Fin (- 1), NaN]\<rparr>
        (call junk (PowerLawKernel (PFloat (Fin 1)) (PInt 2)) xs3)"
proof -
  let ?ovf = "PowerLawKernel (PInt huge) PNone"
  let ?bad = "PowerLawKernel (PFloat (Fin 1)) PNone"
  let ?good = "PowerLawKernel (PFloat (Fin 1)) (PInt 2)"
  let ?a3 = "\<lparr>shape = [3], elems = [Fin 0, Fin (- 1), NaN]\<rparr>"
  have o: "first_error (parameters ?ovf) = Some (''alpha'', PInt huge, Builtin OverflowErrorC)"
    by (simp add: value_of_def py_float_huge)
  have b: "first_error (parameters ?bad) = Some (''p'', PNone, TypeError (cannot_convert PNone))"
    by (simp add: value_of_def)
  have g: "first_error (parameters ?good) = None"
    by (simp add: value_of_def)
  have n: "np_asarray not_a_number = Inl (Builtin ValueErrorC)"
    by (simp add: not_a_number_def np_asarray_def)
  have m: "cannot_convert PNone = ''Cannot convert <class '' @ [CHR 0x27] @ ''NoneType''
             @ [CHR 0x27] @ ''> to float; expected a number or an object with .value''"
    by (simp add: cannot_convert_def class_repr_def)
  have "call junk ?ovf xs3 = Inl (Builtin OverflowErrorC)"
    using evaluate_conversion_errors [where b = ?ovf and k = "''alpha''" and v = "PInt huge"
        and e = "Builtin OverflowErrorC" and mem = junk and x = xs3] o
    by simp
  moreover have "call junk ?bad xs3 = Inl (TypeError (cannot_convert PNone))"
    using evaluate_conversion_errors [where b = ?bad and k = "''p''" and v = PNone
        and e = "TypeError (cannot_convert PNone)" and mem = junk and x = xs3] b
    by simp
  moreover have "call junk ?good not_a_number = Inl (Builtin ValueErrorC)"
    using evaluate_conversion_errors [where b = ?good and x = not_a_number
        and e' = "Builtin ValueErrorC" and mem = junk] g n
    by simp
  moreover have "same_shape ?a3 (call junk ?good xs3)"
    using evaluate_conversion_errors [where b = ?good and x = xs3 and mem = junk and a = ?a3]
      g xs3_asarray
    by simp
  ultimately show ?thesis using o b g n m by simp
qed

text \<open>
  The claim as stated fails in three ways.  The string \<open>"2.5"\<close> is neither a number
  nor a holder of one, yet \<open>float\<close> accepts it and the call returns an array.  An
  input that does not convert raises NumPy's \<open>ValueError\<close>, not the \<open>TypeError\<close> of
  \<open>_value\<close> that names a type.  And \<open>None\<close> as input is converted to NaN and comes
  back as a NaN output.
\<close>

theorem evaluate_conversion_errors_counterexample:
  "\<not> is_number_or_holder two_and_a_half
   \<and> call junk (ExponentialKernel two_and_a_half) (Seq [Elem (PFloat (Fin 0))])
       = Inr \<lparr>shape = [1], elems = [Fin 1]\<rparr>
   \<and> call junk (ExponentialKernel (PFloat (Fin 1))) not_a_number = Inl (Builtin ValueErrorC)
   \<and> call junk (PowerLawDecay (PFloat (Fin 1)) (PFloat (Fin 1)) (PFloat (Fin 0))) (Elem PNone)
       = Inr \<lparr>shape = [], elems = [NaN]\<rparr>"
  by (simp add: two_and_a_half_def call_def value_of_def kwarg_def kernel_exponential_def
      power_law_decay_def np_asarray_def not_a_number_def f_le_def map_arr_def np_where_nan_def)

section \<open>Conversion failures of \<open>params_str\<close>\<close>

text \<open>
  Claim C10, as amended.  For \<open>0 \<le> precision < 2 ** 31\<close>: when \<open>float\<close> rejects a
  bound parameter (the parameter itself, or its \<open>value\<close> attribute when it has one),
  \<open>params_str\<close> returns no string but raises the very error the call of the bound
  curve raises on any input, the error of the first such parameter in declared order:
  the \<open>TypeError\<close> of \<open>_value\<close> that names the type of that parameter where
  \<open>float\<close> raised \<open>TypeError\<close> or \<open>ValueError\<close>, and the \<open>OverflowError\<close> of
  \<open>float\<close> itself for an \<open>int\<close> too large.
\<close>

theorem params_str_conversion_errors:
  assumes "0 \<le> precision" and "precision < 2 ^ 31"
  shows "((k', v') \<in> set (parameters b) \<and> \<not> float_accepts v' \<longrightarrow>
            first_error (parameters b) \<noteq> None)
       \<and> (first_error (parameters b) = Some (k, v, e) \<longrightarrow>
            (k, v) \<in> set (parameters b) \<and> \<not> float_accepts v \<and> value_error v e
            \<and> params_str b precision sep = Inl e \<and> call mem b x = Inl e)"
proof (intro conjI impI)
  assume "(k', v') \<in> set (parameters b) \<and> \<not> float_accepts v'"
  then show "first_error (parameters b) \<noteq> None"
    using first_error_None [of "parameters b"] by auto
next
  assume h: "first_error (parameters b) = Some (k, v, e)"
  from first_error_Some [OF h] have m: "(k, v) \<in> set (parameters b)"
    and r: "value_of v = Inl e" and c: "coerce (parameters b) = Inl e"
    by simp_all
  show "(k, v) \<in> set (parameters b)" by (rule m)
  show "\<not> float_accepts v" using r by (simp add: value_of_accepts)
  show "value_error v e" using r by (rule value_of_error)
  show "params_str b precision sep = Inl e" using assms c by (simp add: params_str_coerce)
  show "call mem b x = Inl e" using c by (rule call_coerce_fail)
qed

theorem params_str_conversion_errors_witness:
  "(''b'', PStr ''abc'' None) \<in> set (parameters growth_bad)
   \<and> \<not> float_accepts (PStr ''abc'' None)
   \<and> first_error (parameters growth_bad)
       = Some (''b'', PStr ''abc'' None, TypeError (cannot_convert (PStr ''abc'' None)))
   \<and> params_str growth_bad 2 '', '' = Inl (TypeError (cannot_convert (PStr ''abc'' None)))
   \<and> call junk growth_bad xs3 = Inl (TypeError (cannot_convert (PStr ''abc'' None)))"
proof -
  have f: "first_error (parameters growth_bad)
       = Some (''b'', PStr ''abc'' None, TypeError (cannot_convert (PStr ''abc'' None)))"
    by (simp add: growth_bad_def value_of_def)
  show ?thesis
    using params_str_conversion_errors [where precision = 2 and b = growth_bad
        and k = "''b''" and v = "PStr ''abc'' None"
        and e = "TypeError (cannot_convert (PStr ''abc'' None))"
        and k' = "''b''" and v' = "PStr ''abc'' None"
        and sep = "'', ''" and mem = junk and x = xs3] f
    by simp
qed

text \<open>
  The claim as stated fails: the string \<open>"2.5"\<close> is neither a number nor a holder of
  one, and \<open>params_str\<close> renders it.  With a precision that is negative or beyond
  the largest C \<open>int\<close> the format specification is refused, so \<open>params_str\<close> raises
  \<open>ValueError\<close> at the first parameter, before it reaches the parameter on which the
  call raises its \<open>TypeError\<close>.
\<close>

theorem params_str_conversion_errors_counterexample:
  "\<not> is_number_or_holder two_and_a_half
   \<and> params_str (ExponentialKernel two_and_a_half) 2 '', '' = Inr ''lam=2.50''
   \<and> params_str (PowerLawKernel (PFloat (Fin 1)) PNone) (- 1) '', '' = Inl (Builtin ValueErrorC)
   \<and> params_str (PowerLawKernel (PFloat (Fin 1)) PNone) (2 ^ 31) '', '' = Inl (Builtin ValueErrorC)
   \<and> call junk (PowerLawKernel (PFloat (Fin 1)) PNone) xs3 = Inl (TypeError (cannot_convert PNone))"
  by (simp add: two_and_a_half_def params_str_def call_def value_of_def format_f_def
      round_half_even_def zfill_def digit_char_def str_nat.simps)


end
